theory Spec2Isabelle
  imports Complex_Main "HOL-Library.Word"
begin

unbundle bit_operations_syntax

section \<open>Receiver node (Nodo\_edge-final.ino): data model\<close>

text \<open>
  The receiver node gets ESP-NOW payloads in \<^verbatim>\<open>OnDataRecv\<close>, sorts them by sender
  address into two FreeRTOS queues, logs each accepted record on the SD card
  (\<^verbatim>\<open>saveDataToSD\<close>), evaluates thresholds in \<^verbatim>\<open>DHTTask\<close> and \<^verbatim>\<open>SoilTask\<close>, and
  sends the resulting alert texts from \<^verbatim>\<open>TelegramTask\<close>.

  A C \<^verbatim>\<open>float\<close> is kept as its IEEE-754 binary32 bit pattern, a C \<^verbatim>\<open>int\<close> as a 32-bit
  word read with \<open>sint\<close>, a payload byte as an 8-bit word, and text as a list of
  8-bit characters (the source file is UTF-8, so a character outside ASCII is
  several of them).
\<close>

type_synonym byte = "8 word"
type_synonym float = "32 word"
type_synonym cint = "32 word"

record dht_message_t =
  temp :: float
  hum :: float
  luz :: cint
  mq5 :: cint

record soil_message_t =
  soil :: float

subsection \<open>Thresholds and sender addresses\<close>

definition TEMP_THRESHOLD :: rat where "TEMP_THRESHOLD = 30"
definition HUM_THRESHOLD :: rat where "HUM_THRESHOLD = 80"
definition SOIL_THRESHOLD_LOW :: rat where "SOIL_THRESHOLD_LOW = 30"
definition SOIL_THRESHOLD_HIGH :: rat where "SOIL_THRESHOLD_HIGH = 70"
definition LDR_THRESHOLD :: rat where "LDR_THRESHOLD = 700"
definition MQ5_THRESHOLD :: rat where "MQ5_THRESHOLD = 1500"

definition unifiedSenderMAC :: "byte list" where
  "unifiedSenderMAC = [0x08, 0xD1, 0xF9, 0xEE, 0x4F, 0x2C]"

definition soilSenderMAC :: "byte list" where
  "soilSenderMAC = [0xA0, 0xB7, 0x65, 0x1B, 0x18, 0x50]"

subsection \<open>The value of a binary32 bit pattern\<close>

text \<open>
  The thresholds are \<^verbatim>\<open>double\<close> constants, so each comparison promotes its \<^verbatim>\<open>float\<close> or
  \<^verbatim>\<open>int\<close> operand to \<^verbatim>\<open>double\<close>, which is exact. A comparison is therefore decided by the
  exact value of the operand: a rational number, an infinity, or NaN (with which every
  ordered comparison is false).
\<close>

datatype fvalue = FNaN | FInf bool | FNum rat

definition f_sign :: "float \<Rightarrow> bool" where
  "f_sign w = bit w 31"

definition f_exp :: "float \<Rightarrow> nat" where
  "f_exp w = unat (take_bit 8 (drop_bit 23 w))"

definition f_man :: "float \<Rightarrow> nat" where
  "f_man w = unat (take_bit 23 w)"

definition f_scale :: "nat \<Rightarrow> nat \<Rightarrow> rat" where
  "f_scale m e = (if 150 \<le> e then of_nat m * 2 ^ (e - 150) else of_nat m / 2 ^ (150 - e))"

definition float_val :: "float \<Rightarrow> fvalue" where
  "float_val w =
     (if f_exp w = 255 then (if f_man w = 0 then FInf (f_sign w) else FNaN)
      else let mag = (if f_exp w = 0 then f_scale (f_man w) 1
                      else f_scale (2 ^ 23 + f_man w) (f_exp w))
           in FNum (if f_sign w then - mag else mag))"

definition f_gt :: "fvalue \<Rightarrow> rat \<Rightarrow> bool" where
  "f_gt v c = (case v of FNaN \<Rightarrow> False | FInf neg \<Rightarrow> \<not> neg | FNum r \<Rightarrow> c < r)"

definition f_lt :: "fvalue \<Rightarrow> rat \<Rightarrow> bool" where
  "f_lt v c = (case v of FNaN \<Rightarrow> False | FInf neg \<Rightarrow> neg | FNum r \<Rightarrow> r < c)"

definition int_val :: "cint \<Rightarrow> fvalue" where
  "int_val i = FNum (of_int (sint i))"

subsection \<open>Decoding a payload (\<^verbatim>\<open>memcpy\<close> into the struct, little-endian target)\<close>

text \<open>
  The callback copies a payload only after comparing its length with the size of the
  struct, so the decoders are applied to payloads of exactly 4 and 16 bytes.
\<close>

definition le32 :: "byte list \<Rightarrow> 32 word" where
  "le32 bs = ucast (bs ! 0) OR push_bit 8 (ucast (bs ! 1))
              OR push_bit 16 (ucast (bs ! 2)) OR push_bit 24 (ucast (bs ! 3))"

definition sizeof_soil_message_t :: nat where "sizeof_soil_message_t = 4"
definition sizeof_dht_message_t :: nat where "sizeof_dht_message_t = 16"

definition decode_soil :: "byte list \<Rightarrow> soil_message_t" where
  "decode_soil bs = \<lparr>soil = le32 (take 4 bs)\<rparr>"

definition decode_dht :: "byte list \<Rightarrow> dht_message_t" where
  "decode_dht bs = \<lparr>temp = le32 (take 4 bs), hum = le32 (take 4 (drop 4 bs)),
                      luz = le32 (take 4 (drop 8 bs)), mq5 = le32 (take 4 (drop 12 bs))\<rparr>"

subsection \<open>Text\<close>

text \<open>
  Numbers are turned into text by library code outside the repository: the Arduino
  \<^verbatim>\<open>String(float, 1)\<close> constructor in the alert lines and the \<^verbatim>\<open>%.1f\<close> conversion of
  \<^verbatim>\<open>printf\<close> in the log line. Both are parameters of the model, collected in \<open>textlib\<close>;
  every result below holds for any choice of them. Decimal conversion of an \<^verbatim>\<open>int\<close>
  (\<^verbatim>\<open>String(int)\<close>, \<^verbatim>\<open>%d\<close>) is written out.
\<close>

record textlib =
  String_float1 :: "float \<Rightarrow> string"
  printf_f1 :: "float \<Rightarrow> string"

definition digit :: "nat \<Rightarrow> char" where
  "digit d = char_of (48 + d)"

fun dec_nat :: "nat \<Rightarrow> string" where
  "dec_nat n = (if n < 10 then [digit n] else dec_nat (n div 10) @ [digit (n mod 10)])"

definition dec_int :: "int \<Rightarrow> string" where
  "dec_int i = (if i < 0 then CHR ''-'' # dec_nat (nat (- i)) else dec_nat (nat i))"

definition String_int :: "cint \<Rightarrow> string" where
  "String_int i = dec_int (sint i)"

text \<open>
  For the concrete examples only: a rendering with one decimal as \<^verbatim>\<open>printf\<close> makes it
  for a finite value (the exact value rounded to the nearest tenth, ties to the even
  one, the sign bit printed as a minus sign). The examples use whole numbers only, for
  which \<^verbatim>\<open>String(float, 1)\<close> gives the same text.
\<close>

definition tenths :: "rat \<Rightarrow> nat" where
  "tenths r =
     (let x = \<bar>r\<bar> * 10; n = nat \<lfloor>x\<rfloor>; f = x - of_nat n
      in if 1 / 2 < f \<or> (f = 1 / 2 \<and> odd n) then Suc n else n)"

definition fixed1_num :: "bool \<Rightarrow> rat \<Rightarrow> string" where
  "fixed1_num neg r = (if neg then ''-'' else [])
                      @ dec_nat (tenths r div 10) @ ''.'' @ dec_nat (tenths r mod 10)"

definition fixed1 :: "float \<Rightarrow> string" where
  "fixed1 w =
     (case float_val w of
        FNaN \<Rightarrow> ''nan''
      | FInf neg \<Rightarrow> (if neg then ''-inf'' else ''inf'')
      | FNum r \<Rightarrow> fixed1_num (f_sign w) r)"

definition ref_textlib :: textlib where
  "ref_textlib = \<lparr>String_float1 = fixed1, printf_f1 = fixed1\<rparr>"

definition NL :: string where "NL = [CHR 0x0A]"

definition DEG :: string where "DEG = [CHR 0xC2, CHR 0xB0]"

definition TXT_TEMP :: string where
  "TXT_TEMP = [CHR 0xE2, CHR 0x9A, CHR 0xA0] @ '' Alta temperatura: ''"

definition TXT_HUM :: string where
  "TXT_HUM = [CHR 0xF0, CHR 0x9F, CHR 0x92, CHR 0xA7] @ '' Alta humedad: ''"

definition TXT_LUZ :: string where
  "TXT_LUZ = [CHR 0xF0, CHR 0x9F, CHR 0x8C, CHR 0x91] @ '' Luz baja: ''"

definition TXT_GAS :: string where
  "TXT_GAS = [CHR 0xF0, CHR 0x9F, CHR 0x94, CHR 0xA5] @ '' Posible gas detectado: ''"

definition TXT_SECO :: string where
  "TXT_SECO = [CHR 0xF0, CHR 0x9F, CHR 0x9A, CHR 0xA8] @ '' Suelo muy seco, Bomba encendida: ''"

definition TXT_HUMEDO :: string where
  "TXT_HUMEDO = [CHR 0xF0, CHR 0x9F, CHR 0x8C, CHR 0x8A] @ '' Suelo demasiado h''
                 @ [CHR 0xC3, CHR 0xBA] @ ''medo: ''"

subsection \<open>The SD card\<close>

text \<open>
  The card is seen through \<^verbatim>\<open>SD_MMC.exists\<close>, \<^verbatim>\<open>SD_MMC.mkdir\<close> and
  \<^verbatim>\<open>SD_MMC.open(path, FILE_APPEND)\<close>. It is a flag (whether \<^verbatim>\<open>SD_MMC.begin\<close> mounted it)
  and a map from absolute paths to directories and files. \<^verbatim>\<open>mkdir\<close> makes one level and
  needs the parent directory; opening for append creates a missing file, needs the
  parent directory as well, and gives no writable file on a directory. On a card that
  is not mounted every call fails.
\<close>

datatype node = Dir | File string

record sd_card =
  mounted :: bool
  nodes :: "string \<rightharpoonup> node"

definition dirname :: "string \<Rightarrow> string" where
  "dirname p = rev (tl (dropWhile (\<lambda>c. c \<noteq> CHR ''/'') (rev p)))"

definition is_dir :: "sd_card \<Rightarrow> string \<Rightarrow> bool" where
  "is_dir c p = (p = [] \<or> nodes c p = Some Dir)"

definition SD_exists :: "sd_card \<Rightarrow> string \<Rightarrow> bool" where
  "SD_exists c p = (mounted c \<and> nodes c p \<noteq> None)"

definition SD_mkdir :: "sd_card \<Rightarrow> string \<Rightarrow> sd_card" where
  "SD_mkdir c p = (if mounted c \<and> nodes c p = None \<and> is_dir c (dirname p)
                   then c\<lparr>nodes := (nodes c)(p \<mapsto> Dir)\<rparr> else c)"

text \<open>Opening for append: the text already in the file, or \<open>None\<close> when no file is opened.\<close>

definition SD_open_append :: "sd_card \<Rightarrow> string \<Rightarrow> string option" where
  "SD_open_append c p =
     (if \<not> mounted c then None
      else case nodes c p of
             Some (File old) \<Rightarrow> Some old
           | Some Dir \<Rightarrow> None
           | None \<Rightarrow> (if is_dir c (dirname p) then Some [] else None))"

text \<open>
  What the data file at a path holds so far, and when the card can take a record at a
  given time: it is mounted, no file sits where the date and hour directories go, and
  no directory sits where the data file goes.
\<close>

definition file_text :: "sd_card \<Rightarrow> string \<Rightarrow> string" where
  "file_text c p = (case nodes c p of Some (File old) \<Rightarrow> old | _ \<Rightarrow> [])"

definition not_file :: "sd_card \<Rightarrow> string \<Rightarrow> bool" where
  "not_file c p = (case nodes c p of Some (File old) \<Rightarrow> False | _ \<Rightarrow> True)"

subsection \<open>The clock and \<^verbatim>\<open>strftime\<close>\<close>

text \<open>
  \<^verbatim>\<open>getLocalTime\<close> either fails or fills a \<^verbatim>\<open>struct tm\<close>; its result is an input of the
  model. \<^verbatim>\<open>strftime\<close> writes at most the size of its buffer, terminator included; when
  the text does not fit, the buffer's contents are indeterminate (\<open>None\<close>).
\<close>

record tm =
  tm_year :: int
  tm_mon :: int
  tm_mday :: int
  tm_hour :: int
  tm_min :: int
  tm_sec :: int

definition pad2 :: "int \<Rightarrow> string" where
  "pad2 i = (if 0 \<le> i \<and> i < 10 then CHR ''0'' # dec_int i else dec_int i)"

definition fmt_date :: "tm \<Rightarrow> string" where
  "fmt_date t = ''/'' @ dec_int (tm_year t + 1900) @ ''-'' @ pad2 (tm_mon t + 1)
                @ ''-'' @ pad2 (tm_mday t)"

definition fmt_hour :: "tm \<Rightarrow> string" where
  "fmt_hour t = fmt_date t @ ''/'' @ pad2 (tm_hour t)"

definition fmt_file :: "tm \<Rightarrow> string" where
  "fmt_file t = fmt_hour t @ ''/data.txt''"

definition strftime :: "nat \<Rightarrow> string \<Rightarrow> string option" where
  "strftime maxsize txt = (if length txt + 1 \<le> maxsize then Some txt else None)"

text \<open>A calendar time with a four-digit year (\<^verbatim>\<open>tm_year\<close> counts from 1900, \<^verbatim>\<open>tm_mon\<close> from 0).\<close>

definition valid_tm :: "tm \<Rightarrow> bool" where
  "valid_tm t = (0 \<le> tm_year t \<and> tm_year t \<le> 8099 \<and> 0 \<le> tm_mon t \<and> tm_mon t \<le> 11
                 \<and> 1 \<le> tm_mday t \<and> tm_mday t \<le> 31 \<and> 0 \<le> tm_hour t \<and> tm_hour t \<le> 23
                 \<and> 0 \<le> tm_min t \<and> tm_min t \<le> 59 \<and> 0 \<le> tm_sec t \<and> tm_sec t \<le> 60)"

definition card_ready :: "sd_card \<Rightarrow> tm \<Rightarrow> bool" where
  "card_ready c t = (mounted c \<and> not_file c (fmt_date t) \<and> not_file c (fmt_hour t)
                     \<and> nodes c (fmt_file t) \<noteq> Some Dir)"

definition clock_ok :: "tm option \<Rightarrow> bool" where
  "clock_ok now = (case now of None \<Rightarrow> True | Some t \<Rightarrow> valid_tm t)"

section \<open>Operations\<close>

subsection \<open>\<^verbatim>\<open>saveDataToSD\<close>\<close>

definition log_line :: "textlib \<Rightarrow> float \<Rightarrow> float \<Rightarrow> float \<Rightarrow> cint \<Rightarrow> cint \<Rightarrow> string" where
  "log_line L tempv humv soilv luzv mq5v =
     ''Temp: '' @ printf_f1 L tempv @ DEG @ ''C, Hum: '' @ printf_f1 L humv
     @ ''%, Suelo: '' @ printf_f1 L soilv @ ''%, Luz: '' @ dec_int (sint luzv)
     @ '', MQ5: '' @ dec_int (sint mq5v) @ NL"

text \<open>
  \<open>now\<close> is what \<^verbatim>\<open>getLocalTime\<close> gives at this call. The result is the card after the
  call, or \<open>None\<close> when a path did not fit its buffer (15, 18 and 25 bytes) and the
  paths used are indeterminate.
\<close>

definition saveDataToSD ::
  "textlib \<Rightarrow> tm option \<Rightarrow> float \<Rightarrow> float \<Rightarrow> float \<Rightarrow> cint \<Rightarrow> cint \<Rightarrow> sd_card
   \<Rightarrow> sd_card option" where
  "saveDataToSD L now tempv humv soilv luzv mq5v sdc =
     (case now of
        None \<Rightarrow> Some sdc
      | Some timeinfo \<Rightarrow>
          (case (strftime 15 (fmt_date timeinfo), strftime 18 (fmt_hour timeinfo),
                 strftime 25 (fmt_file timeinfo)) of
             (Some datePath, Some hourPath, Some filePath) \<Rightarrow>
               (let c1 = (if \<not> SD_exists sdc datePath then SD_mkdir sdc datePath else sdc);
                    c2 = (if \<not> SD_exists c1 hourPath then SD_mkdir c1 hourPath else c1)
                in case SD_open_append c2 filePath of
                     Some old \<Rightarrow>
                       Some (c2\<lparr>nodes := (nodes c2)(filePath \<mapsto>
                                 File (old @ log_line L tempv humv soilv luzv mq5v))\<rparr>)
                   | None \<Rightarrow> Some c2)
           | _ \<Rightarrow> None))"

subsection \<open>State of the pipeline\<close>

text \<open>
  The three queues hold at most five items (\<^verbatim>\<open>xQueueCreate(5, ...)\<close>). Alert buffers live
  on the heap: \<open>cells\<close> maps the address of each allocated buffer to its bytes, \<open>brk\<close> is
  the last address \<^verbatim>\<open>malloc\<close> handed out, and address 0 is the null pointer. An evaluator
  task that waits in \<^verbatim>\<open>xQueueSend\<close> on the full alert queue keeps the address it is about
  to send in its local \<^verbatim>\<open>buf\<close>: \<open>held\<close> has it, per task. Two traces record what the
  dispatcher does: \<open>released\<close> lists the addresses passed to \<^verbatim>\<open>free\<close>, \<open>bot_log\<close> the texts
  passed to \<^verbatim>\<open>bot.sendMessage\<close> with the outcome of each attempt. Output on the serial
  port is left out, and the \<^verbatim>\<open>String\<close> class is taken to build its texts in full.
\<close>

datatype task = DHT_task | Soil_task

record state =
  dhtQueue :: "dht_message_t list"
  soilQueue :: "soil_message_t list"
  msgQueue :: "nat list"
  cells :: "nat \<rightharpoonup> string"
  brk :: nat
  released :: "nat list"
  SD_MMC :: sd_card
  bot_log :: "(string \<times> bool) list"
  held :: "task \<rightharpoonup> nat"

definition QUEUE_LENGTH :: nat where "QUEUE_LENGTH = 5"

text \<open>
  Every queue call waits with \<^verbatim>\<open>portMAX_DELAY\<close>: a send on a full queue and a receive on
  an empty one do not return until another task makes room or provides an item. Such
  a call is \<open>None\<close> here, and the operation around it ends \<open>Suspended\<close>, in the state it
  has reached by then. The callback and the dispatcher wait before they change
  anything. An evaluator that finds the alert queue full has already taken its record
  and filled its buffer: it is suspended with the buffer's address in \<open>held\<close>, and its
  next step finishes the send. \<open>Indeterminate\<close> marks behaviour the C language leaves
  open.
\<close>

datatype 'a outcome =
    is_Returned: Returned (result: 'a)
  | is_Suspended: Suspended (result: 'a)
  | Indeterminate

definition xQueueSend :: "'a list \<Rightarrow> 'a \<Rightarrow> 'a list option" where
  "xQueueSend q x = (if length q < QUEUE_LENGTH then Some (q @ [x]) else None)"

definition xQueueReceive :: "'a list \<Rightarrow> ('a \<times> 'a list) option" where
  "xQueueReceive q = (case q of [] \<Rightarrow> None | x # rest \<Rightarrow> Some (x, rest))"

text \<open>
  \<^verbatim>\<open>malloc\<close>: \<open>avail\<close> tells whether the heap has room for the request. If it has, the
  result is a fresh address; if not, it is the null pointer and nothing is allocated.
\<close>

definition malloc :: "nat \<Rightarrow> bool \<Rightarrow> state \<Rightarrow> nat \<times> state" where
  "malloc n avail s =
     (if avail
      then (let p = Suc (brk s)
            in (p, s\<lparr>cells := (cells s)(p \<mapsto> replicate n (CHR 0x00)), brk := p\<rparr>))
      else (0, s))"

text \<open>
  \<^verbatim>\<open>free\<close>: nothing happens to the heap for the null pointer; freeing an address that is
  not a live buffer is indeterminate.
\<close>

definition free_buf :: "nat \<Rightarrow> state \<Rightarrow> state option" where
  "free_buf p s =
     (if p = 0 then Some (s\<lparr>released := released s @ [p]\<rparr>)
      else case cells s p of
             None \<Rightarrow> None
           | Some _ \<Rightarrow> Some (s\<lparr>cells := (cells s)(p := None), released := released s @ [p]\<rparr>))"

text \<open>
  \<^verbatim>\<open>msg.toCharArray(buf, bufsize)\<close>: at most \<open>bufsize - 1\<close> bytes and a terminator; nothing
  is written through a null pointer.
\<close>

definition toCharArray :: "string \<Rightarrow> nat \<Rightarrow> nat \<Rightarrow> state \<Rightarrow> state" where
  "toCharArray msg buf bufsize s =
     (if bufsize = 0 \<or> buf = 0 then s
      else case cells s buf of
             None \<Rightarrow> s
           | Some old \<Rightarrow>
               (let new = take (bufsize - 1) msg @ [CHR 0x00]
                in s\<lparr>cells := (cells s)(buf \<mapsto> new @ drop (length new) old)\<rparr>))"

text \<open>
  \<^verbatim>\<open>String(recvBuffer)\<close>: the bytes before the first terminator (the empty text for the
  null pointer; indeterminate when the address is no live buffer or has no terminator).
\<close>

definition String_cstr :: "nat \<Rightarrow> state \<Rightarrow> string option" where
  "String_cstr p s =
     (if p = 0 then Some []
      else case cells s p of
             None \<Rightarrow> None
           | Some bs \<Rightarrow>
               (if CHR 0x00 \<in> set bs then Some (takeWhile (\<lambda>b. b \<noteq> CHR 0x00) bs)
                else None))"

subsection \<open>\<^verbatim>\<open>OnDataRecv\<close>\<close>

text \<open>
  \<open>src_addr\<close> is the sender's address, \<open>incoming\<close> the payload (\<^verbatim>\<open>len\<close> is its length),
  \<open>now\<close> the answer \<^verbatim>\<open>getLocalTime\<close> would give inside \<^verbatim>\<open>saveDataToSD\<close>.
\<close>

definition OnDataRecv ::
  "textlib \<Rightarrow> tm option \<Rightarrow> byte list \<Rightarrow> byte list \<Rightarrow> state \<Rightarrow> state outcome" where
  "OnDataRecv L now src_addr incoming st =
     (let len = length incoming in
      if take 6 src_addr = soilSenderMAC \<and> len = sizeof_soil_message_t then
        (let s = decode_soil incoming in
         case xQueueSend (soilQueue st) s of
           None \<Rightarrow> Suspended st
         | Some q \<Rightarrow>
             (case saveDataToSD L now 0 0 (soil s) 0 0 (SD_MMC st) of
                None \<Rightarrow> Indeterminate
              | Some sdc \<Rightarrow> Returned (st\<lparr>soilQueue := q, SD_MMC := sdc\<rparr>)))
      else if take 6 src_addr = unifiedSenderMAC \<and> len = sizeof_dht_message_t then
        (let d = decode_dht incoming in
         case xQueueSend (dhtQueue st) d of
           None \<Rightarrow> Suspended st
         | Some q \<Rightarrow>
             (case saveDataToSD L now (temp d) (hum d) 0 (luz d) (mq5 d) (SD_MMC st) of
                None \<Rightarrow> Indeterminate
              | Some sdc \<Rightarrow> Returned (st\<lparr>dhtQueue := q, SD_MMC := sdc\<rparr>)))
      else Returned st)"

subsection \<open>The evaluator tasks\<close>

text \<open>The text \<^verbatim>\<open>DHTTask\<close> builds for one record, one \<^verbatim>\<open>if\<close> after the other.\<close>

definition DHT_msg :: "textlib \<Rightarrow> dht_message_t \<Rightarrow> string" where
  "DHT_msg L d =
     (let msg = [];
          msg = (if f_gt (float_val (temp d)) TEMP_THRESHOLD
                 then msg @ TXT_TEMP @ String_float1 L (temp d) @ DEG @ ''C'' @ NL else msg);
          msg = (if f_gt (float_val (hum d)) HUM_THRESHOLD
                 then msg @ TXT_HUM @ String_float1 L (hum d) @ ''%'' @ NL else msg);
          msg = (if f_gt (int_val (luz d)) LDR_THRESHOLD
                 then msg @ TXT_LUZ @ String_int (luz d) @ NL else msg);
          msg = (if f_gt (int_val (mq5 d)) MQ5_THRESHOLD
                 then msg @ TXT_GAS @ String_int (mq5 d) @ NL else msg)
      in msg)"

text \<open>The text \<^verbatim>\<open>SoilTask\<close> builds for one record: an \<^verbatim>\<open>if\<close> with an \<^verbatim>\<open>else if\<close>.\<close>

definition Soil_msg :: "textlib \<Rightarrow> soil_message_t \<Rightarrow> string" where
  "Soil_msg L s =
     (let msg = [] in
      if f_lt (float_val (soil s)) SOIL_THRESHOLD_LOW
      then msg @ TXT_SECO @ String_float1 L (soil s) @ ''%'' @ NL
      else if f_gt (float_val (soil s)) SOIL_THRESHOLD_HIGH
      then msg @ TXT_HUMEDO @ String_float1 L (soil s) @ ''%'' @ NL
      else msg)"

text \<open>
  Sending an address to \<^verbatim>\<open>msgQueue\<close> for a task: with room the address is queued and the
  task holds nothing any more; without room the task is suspended holding it.
\<close>

definition send_alert :: "task \<Rightarrow> nat \<Rightarrow> state \<Rightarrow> state outcome" where
  "send_alert t buf st =
     (case xQueueSend (msgQueue st) buf of
        None \<Rightarrow> Suspended (st\<lparr>held := (held st)(t \<mapsto> buf)\<rparr>)
      | Some q \<Rightarrow> Returned (st\<lparr>msgQueue := q, held := (held st)(t := None)\<rparr>))"

text \<open>
  The end of both task bodies: when the text is not empty, ask for a buffer, copy the
  text into it and send the address \<^verbatim>\<open>malloc\<close> gave, whatever it is, to \<^verbatim>\<open>msgQueue\<close>.
\<close>

definition enqueue_alert :: "task \<Rightarrow> string \<Rightarrow> bool \<Rightarrow> state \<Rightarrow> state outcome" where
  "enqueue_alert t msg avail st =
     (if length msg \<noteq> 0 then
        (let (buf, st1) = malloc (length msg + 1) avail st;
             st2 = toCharArray msg buf (length msg + 1) st1
         in send_alert t buf st2)
      else Returned st)"

text \<open>
  One step of \<^verbatim>\<open>DHTTask\<close>, and one of \<^verbatim>\<open>SoilTask\<close>: the send it was left waiting in, or
  else one iteration of its loop. \<open>avail\<close> is the answer of \<^verbatim>\<open>malloc\<close>, should the
  iteration call it.
\<close>

definition DHTTask :: "textlib \<Rightarrow> bool \<Rightarrow> state \<Rightarrow> state outcome" where
  "DHTTask L avail st =
     (case held st DHT_task of
        Some buf \<Rightarrow> send_alert DHT_task buf st
      | None \<Rightarrow>
          (case xQueueReceive (dhtQueue st) of
             None \<Rightarrow> Suspended st
           | Some (d, rest) \<Rightarrow>
               enqueue_alert DHT_task (DHT_msg L d) avail (st\<lparr>dhtQueue := rest\<rparr>)))"

definition SoilTask :: "textlib \<Rightarrow> bool \<Rightarrow> state \<Rightarrow> state outcome" where
  "SoilTask L avail st =
     (case held st Soil_task of
        Some buf \<Rightarrow> send_alert Soil_task buf st
      | None \<Rightarrow>
          (case xQueueReceive (soilQueue st) of
             None \<Rightarrow> Suspended st
           | Some (s, rest) \<Rightarrow>
               enqueue_alert Soil_task (Soil_msg L s) avail (st\<lparr>soilQueue := rest\<rparr>)))"

subsection \<open>The dispatcher\<close>

text \<open>
  One iteration of the loop of \<^verbatim>\<open>TelegramTask\<close>; \<open>ok\<close> is what \<^verbatim>\<open>bot.sendMessage\<close>
  returns for this message.
\<close>

definition TelegramTask :: "bool \<Rightarrow> state \<Rightarrow> state outcome" where
  "TelegramTask ok st =
     (case xQueueReceive (msgQueue st) of
        None \<Rightarrow> Suspended st
      | Some (recvBuffer, rest) \<Rightarrow>
          (case String_cstr recvBuffer st of
             None \<Rightarrow> Indeterminate
           | Some txt \<Rightarrow>
               (case free_buf recvBuffer
                       (st\<lparr>msgQueue := rest, bot_log := bot_log st @ [(txt, ok)]\<rparr>) of
                  None \<Rightarrow> Indeterminate
                | Some st' \<Rightarrow> Returned st')))"


subsection \<open>The pipeline as a whole\<close>

text \<open>
  \<^verbatim>\<open>setup\<close> creates the three queues empty and starts the tasks; the card is mounted or
  not. From there the node's history is a sequence of events: a payload arrives, or one
  of the tasks takes a step. After an operation that is suspended the next event is
  taken in the state the operation has reached.
\<close>

definition setup_node :: "bool \<Rightarrow> state" where
  "setup_node sd_ok = \<lparr>dhtQueue = [], soilQueue = [], msgQueue = [], cells = Map.empty, brk = 0,
                        released = [], SD_MMC = \<lparr>mounted = sd_ok, nodes = Map.empty\<rparr>,
                        bot_log = [], held = Map.empty\<rparr>"

datatype event =
    Recv "tm option" "byte list" "byte list"
  | RunDHT bool
  | RunSoil bool
  | RunTelegram bool

fun step :: "textlib \<Rightarrow> event \<Rightarrow> state \<Rightarrow> state outcome" where
  "step L (Recv now src_addr incoming) st = OnDataRecv L now src_addr incoming st"
| "step L (RunDHT avail) st = DHTTask L avail st"
| "step L (RunSoil avail) st = SoilTask L avail st"
| "step L (RunTelegram ok) st = TelegramTask ok st"

fun run :: "textlib \<Rightarrow> event list \<Rightarrow> state \<Rightarrow> state outcome" where
  "run L [] st = Returned st"
| "run L (e # es) st =
     (case step L e st of
        Returned st' \<Rightarrow> run L es st'
      | Suspended st' \<Rightarrow> run L es st'
      | Indeterminate \<Rightarrow> Indeterminate)"

section \<open>Notions used in the properties\<close>

subsection \<open>Bands, buffers and the alert invariant\<close>

definition f_between :: "fvalue \<Rightarrow> rat \<Rightarrow> rat \<Rightarrow> bool" where
  "f_between v lo hi = (case v of FNum r \<Rightarrow> lo \<le> r \<and> r \<le> hi | _ \<Rightarrow> False)"

text \<open>A queued address is a live buffer holding a terminated text.\<close>

definition valid_buf :: "nat \<Rightarrow> state \<Rightarrow> bool" where
  "valid_buf p st =
     (p \<noteq> 0 \<and> (case cells st p of None \<Rightarrow> False | Some bs \<Rightarrow> CHR 0x00 \<in> set bs))"

text \<open>The text the dispatcher will read from a queued address is not empty.\<close>

definition alert_ok :: "nat \<Rightarrow> state \<Rightarrow> bool" where
  "alert_ok p st =
     (valid_buf p st \<and> p \<le> brk st
      \<and> (case String_cstr p st of None \<Rightarrow> False | Some txt \<Rightarrow> txt \<noteq> []))"

text \<open>
  The addresses on their way to the dispatcher: those in the alert queue and those
  held by a waiting evaluator. The invariant of the alert path, as long as every
  allocation succeeds: these addresses are distinct live buffers with a text that is not
  empty, and no empty text has been passed on.
\<close>

definition held_bufs :: "state \<Rightarrow> nat list" where
  "held_bufs st = (case held st DHT_task of None \<Rightarrow> [] | Some p \<Rightarrow> [p])
                  @ (case held st Soil_task of None \<Rightarrow> [] | Some p \<Rightarrow> [p])"

definition alerts_inv :: "state \<Rightarrow> bool" where
  "alerts_inv st = (distinct (msgQueue st @ held_bufs st)
                    \<and> list_all (\<lambda>p. alert_ok p st) (msgQueue st @ held_bufs st)
                    \<and> [] \<notin> set (map fst (bot_log st)))"

definition alloc_ok :: "event \<Rightarrow> bool" where
  "alloc_ok e = (case e of RunDHT avail \<Rightarrow> avail | RunSoil avail \<Rightarrow> avail | _ \<Rightarrow> True)"

subsection \<open>The environment alert as the specification words it\<close>

text \<open>
  Four independent conditions, \<open>temperature > 30.0\<close>, \<open>humidity > 80.0\<close>, \<open>light > 700\<close> and
  \<open>gasIndex > 1500\<close>, each contributing its line, in this order, to one text.
\<close>

datatype condition = HighTemperature | HighHumidity | LowLight | GasDetected

definition condition_fires :: "dht_message_t \<Rightarrow> condition \<Rightarrow> bool" where
  "condition_fires d c =
     (case c of
        HighTemperature \<Rightarrow> f_gt (float_val (temp d)) 30
      | HighHumidity \<Rightarrow> f_gt (float_val (hum d)) 80
      | LowLight \<Rightarrow> 700 < sint (luz d)
      | GasDetected \<Rightarrow> 1500 < sint (mq5 d))"

definition condition_line :: "textlib \<Rightarrow> dht_message_t \<Rightarrow> condition \<Rightarrow> string" where
  "condition_line L d c =
     (case c of
        HighTemperature \<Rightarrow> TXT_TEMP @ String_float1 L (temp d) @ DEG @ ''C'' @ NL
      | HighHumidity \<Rightarrow> TXT_HUM @ String_float1 L (hum d) @ ''%'' @ NL
      | LowLight \<Rightarrow> TXT_LUZ @ String_int (luz d) @ NL
      | GasDetected \<Rightarrow> TXT_GAS @ String_int (mq5 d) @ NL)"

definition spec_environment_alert :: "textlib \<Rightarrow> dht_message_t \<Rightarrow> string" where
  "spec_environment_alert L d =
     concat (map (condition_line L d)
               (filter (condition_fires d)
                  [HighTemperature, HighHumidity, LowLight, GasDetected]))"

subsection \<open>Concrete inputs\<close>

text \<open>
  The first of March 2024 at 14:22:00 and at 14:47:30, a mounted empty card, a soil
  payload with moisture 25.0, an environment payload with temperature 31.0, humidity
  50.0, light 0 and gas index 0, soil records with moisture 50.0 and 75.0, a state
  with two alerts waiting in the queue, a state with a full alert queue, and a short
  history of the node in which the heap has no room when \<^verbatim>\<open>DHTTask\<close> asks for a buffer.
\<close>

definition march_1st :: tm where
  "march_1st = \<lparr>tm_year = 124, tm_mon = 2, tm_mday = 1, tm_hour = 14, tm_min = 22, tm_sec = 0\<rparr>"

definition march_1st_later :: tm where
  "march_1st_later = \<lparr>tm_year = 124, tm_mon = 2, tm_mday = 1, tm_hour = 14, tm_min = 47,
                        tm_sec = 30\<rparr>"

definition empty_card :: sd_card where
  "empty_card = \<lparr>mounted = True, nodes = Map.empty\<rparr>"

definition soil_payload_25 :: "byte list" where
  "soil_payload_25 = [0x00, 0x00, 0xC8, 0x41]"

definition dht_payload_31 :: "byte list" where
  "dht_payload_31 = [0x00, 0x00, 0xF8, 0x41, 0x00, 0x00, 0x48, 0x42,
                     0x00, 0x00, 0x00, 0x00, 0x00, 0x00, 0x00, 0x00]"

definition dht_sample_31 :: dht_message_t where
  "dht_sample_31 = \<lparr>temp = 0x41F80000, hum = 0x42480000, luz = 0, mq5 = 0\<rparr>"

definition soil_sample_25 :: soil_message_t where
  "soil_sample_25 = \<lparr>soil = 0x41C80000\<rparr>"

definition soil_sample_50 :: soil_message_t where
  "soil_sample_50 = \<lparr>soil = 0x42480000\<rparr>"

definition soil_sample_75 :: soil_message_t where
  "soil_sample_75 = \<lparr>soil = 0x42960000\<rparr>"

definition one_dht_record :: state where
  "one_dht_record = (setup_node True)\<lparr>dhtQueue := [dht_sample_31]\<rparr>"

definition one_soil_record :: state where
  "one_soil_record = (setup_node True)\<lparr>soilQueue := [soil_sample_25]\<rparr>"


definition full_alert_queue :: state where
  "full_alert_queue = (setup_node True)\<lparr>soilQueue := [soil_sample_25],
     msgQueue := [1, 2, 3, 4, 5], brk := 5\<rparr>"

definition heap_exhausted :: "event list" where
  "heap_exhausted = [Recv None unifiedSenderMAC dht_payload_31, RunDHT False,
                     RunTelegram False]"

section \<open>Evaluating the text and number functions\<close>

declare dec_nat.simps [simp del]

lemma digit_values:
  "digit 0 = CHR ''0''" "digit 1 = CHR ''1''" "digit 2 = CHR ''2''" "digit 3 = CHR ''3''"
  "digit 4 = CHR ''4''" "digit 5 = CHR ''5''" "digit 6 = CHR ''6''" "digit 7 = CHR ''7''"
  "digit 8 = CHR ''8''" "digit 9 = CHR ''9''"
  by code_simp+

lemma digit_Suc_0: "digit (Suc 0) = CHR ''1''"
  using digit_values(2) by simp

lemma dec_nat_small: "n < 10 \<Longrightarrow> dec_nat n = [digit n]"
  by (simp add: dec_nat.simps [of n])

lemma dec_nat_large: "10 \<le> n \<Longrightarrow> dec_nat n = dec_nat (n div 10) @ [digit (n mod 10)]"
  by (simp add: dec_nat.simps [of n])

lemma march_1st_paths:
  "fmt_date march_1st = ''/2024-03-01''" "fmt_hour march_1st = ''/2024-03-01/14''"
  "fmt_file march_1st = ''/2024-03-01/14/data.txt''"
  by (simp_all add: fmt_file_def fmt_hour_def fmt_date_def march_1st_def pad2_def dec_int_def
      dec_nat_small dec_nat_large digit_values digit_Suc_0)

lemma tenths_whole: "tenths (of_nat k) = 10 * k"
proof -
  have "\<lfloor>(of_nat k :: rat) * 10\<rfloor> = int (10 * k)"
    by (rule floor_unique) simp_all
  then show ?thesis by (simp add: tenths_def Let_def)
qed

lemma tenths_values: "tenths 0 = 0" "tenths 25 = 250" "tenths 31 = 310" "tenths 50 = 500"
  using tenths_whole [of 0] tenths_whole [of 25] tenths_whole [of 31] tenths_whole [of 50]
  by simp_all

lemma fixed1_num_values:
  "fixed1_num False 0 = ''0.0''" "fixed1_num False 25 = ''25.0''"
  "fixed1_num False 31 = ''31.0''" "fixed1_num False 50 = ''50.0''"
  by (simp_all add: fixed1_num_def tenths_values dec_nat_small dec_nat_large digit_values
      digit_Suc_0)

lemma f_sign_examples:
  "f_sign 0 = False" "f_sign 0x41C80000 = False" "f_sign 0x41F80000 = False"
  "f_sign 0x42480000 = False"
  by (simp_all add: f_sign_def)

lemma float_val_0: "float_val 0 = FNum 0"
  by (simp add: float_val_def f_exp_def f_man_def f_sign_def f_scale_def)

lemma float_val_25: "float_val 0x41C80000 = FNum 25"
proof -
  have "f_sign 0x41C80000 = False" by (simp add: f_sign_def)
  moreover have "f_man 0x41C80000 = 0x480000" by (simp add: f_man_def)
  moreover have "f_exp 0x41C80000 = 131" by (simp add: f_exp_def)
  moreover have "f_scale 13107200 131 = 25" by (simp add: f_scale_def)
  ultimately show ?thesis by (simp add: float_val_def)
qed

lemma float_val_31: "float_val 0x41F80000 = FNum 31"
proof -
  have "f_sign 0x41F80000 = False" by (simp add: f_sign_def)
  moreover have "f_man 0x41F80000 = 0x780000" by (simp add: f_man_def)
  moreover have "f_exp 0x41F80000 = 131" by (simp add: f_exp_def)
  moreover have "f_scale 16252928 131 = 31" by (simp add: f_scale_def)
  ultimately show ?thesis by (simp add: float_val_def)
qed

lemma float_val_50: "float_val 0x42480000 = FNum 50"
proof -
  have "f_sign 0x42480000 = False" by (simp add: f_sign_def)
  moreover have "f_man 0x42480000 = 0x480000" by (simp add: f_man_def)
  moreover have "f_exp 0x42480000 = 132" by (simp add: f_exp_def)
  moreover have "f_scale 13107200 132 = 50" by (simp add: f_scale_def)
  ultimately show ?thesis by (simp add: float_val_def)
qed

lemma float_val_75: "float_val 0x42960000 = FNum 75"
proof -
  have "f_sign 0x42960000 = False" by (simp add: f_sign_def)
  moreover have "f_man 0x42960000 = 0x160000" by (simp add: f_man_def)
  moreover have "f_exp 0x42960000 = 133" by (simp add: f_exp_def)
  moreover have "f_scale 9830400 133 = 75" by (simp add: f_scale_def)
  ultimately show ?thesis by (simp add: float_val_def)
qed

lemmas float_val_examples = float_val_0 float_val_25 float_val_31 float_val_50 float_val_75

lemma fixed1_examples:
  "fixed1 0 = ''0.0''" "fixed1 0x41C80000 = ''25.0''"
  "fixed1 0x41F80000 = ''31.0''" "fixed1 0x42480000 = ''50.0''"
  by (simp_all add: fixed1_def float_val_examples f_sign_examples fixed1_num_values)

lemma dec_int_0: "dec_int 0 = ''0''"
  by (simp add: dec_int_def dec_nat_small digit_values)

lemma log_line_examples:
  "log_line ref_textlib 0 0 0x41C80000 0 0
     = ''Temp: 0.0'' @ DEG @ ''C, Hum: 0.0%, Suelo: 25.0%, Luz: 0, MQ5: 0'' @ NL"
  "log_line ref_textlib 0x41F80000 0x42480000 0 0 0
     = ''Temp: 31.0'' @ DEG @ ''C, Hum: 50.0%, Suelo: 0.0%, Luz: 0, MQ5: 0'' @ NL"
  by (simp_all add: log_line_def ref_textlib_def fixed1_examples dec_int_0)

section \<open>Paths and the card\<close>

lemma digit_not_slash: "d < 10 \<Longrightarrow> digit d \<noteq> CHR ''/''"
proof
  assume d: "d < 10" and e: "digit d = CHR ''/''"
  from e have "(of_char (digit d) :: nat) = of_char (CHR ''/'')" by simp
  with d show False by (simp add: digit_def)
qed

lemma dec_nat_no_slash: "CHR ''/'' \<notin> set (dec_nat n)"
proof (induction n rule: dec_nat.induct)
  case (1 n)
  show ?case
  proof (cases "n < 10")
    case True
    then show ?thesis using digit_not_slash [of n] by (auto simp add: dec_nat.simps [of n])
  next
    case False
    with "1" have "CHR ''/'' \<notin> set (dec_nat (n div 10))" by simp
    moreover have "digit (n mod 10) \<noteq> CHR ''/''" by (rule digit_not_slash) simp
    ultimately show ?thesis using False by (auto simp add: dec_nat.simps [of n])
  qed
qed

lemma length_dec_nat_1: "n < 10 \<Longrightarrow> length (dec_nat n) = 1"
  by (simp add: dec_nat.simps [of n])

lemma length_dec_nat_2: "10 \<le> n \<Longrightarrow> n < 100 \<Longrightarrow> length (dec_nat n) = 2"
  by (simp add: dec_nat.simps [of n] length_dec_nat_1)

lemma length_dec_nat_3: "100 \<le> n \<Longrightarrow> n < 1000 \<Longrightarrow> length (dec_nat n) = 3"
  by (simp add: dec_nat.simps [of n] length_dec_nat_2)

lemma length_dec_nat_4: "1000 \<le> n \<Longrightarrow> n < 10000 \<Longrightarrow> length (dec_nat n) = 4"
  by (simp add: dec_nat.simps [of n] length_dec_nat_3)

lemma length_pad2: "0 \<le> i \<Longrightarrow> i < 100 \<Longrightarrow> length (pad2 i) = 2"
  by (cases "i < 10") (simp_all add: pad2_def dec_int_def length_dec_nat_1 length_dec_nat_2)

lemma pad2_no_slash: "0 \<le> i \<Longrightarrow> CHR ''/'' \<notin> set (pad2 i)"
  by (simp add: pad2_def dec_int_def dec_nat_no_slash)

lemma length_dec_int_year: "0 \<le> y \<Longrightarrow> y \<le> 8099 \<Longrightarrow> length (dec_int (y + 1900)) = 4"
  by (simp add: dec_int_def length_dec_nat_4)

lemma length_fmt_date: "valid_tm t \<Longrightarrow> length (fmt_date t) = 11"
proof -
  assume v: "valid_tm t"
  then have "length (dec_int (tm_year t + 1900)) = 4"
    by (simp add: valid_tm_def length_dec_int_year)
  moreover from v have "length (pad2 (tm_mon t + 1)) = 2"
    by (simp add: valid_tm_def length_pad2)
  moreover from v have "length (pad2 (tm_mday t)) = 2"
    by (simp add: valid_tm_def length_pad2)
  ultimately show ?thesis by (simp add: fmt_date_def)
qed

lemma fmt_date_no_slash_tl: "valid_tm t \<Longrightarrow> fmt_date t = CHR ''/'' # tl (fmt_date t) \<and> CHR ''/'' \<notin> set (tl (fmt_date t))"
  by (simp add: valid_tm_def fmt_date_def dec_int_def dec_nat_no_slash pad2_no_slash)

lemma dirname_append: "CHR ''/'' \<notin> set q \<Longrightarrow> dirname (p @ CHR ''/'' # q) = p"
proof -
  assume q: "CHR ''/'' \<notin> set q"
  have "dropWhile (\<lambda>c. c \<noteq> CHR ''/'') (rev q @ CHR ''/'' # rev p) = CHR ''/'' # rev p"
    using q by (auto simp add: dropWhile_append3)
  then show ?thesis by (simp add: dirname_def)
qed

lemma fmt_hour_split: "fmt_hour t = fmt_date t @ CHR ''/'' # pad2 (tm_hour t)"
  by (simp add: fmt_hour_def)

lemma fmt_file_split: "fmt_file t = fmt_hour t @ CHR ''/'' # ''data.txt''"
  by (simp add: fmt_file_def)

lemma strftime_paths:
  assumes "valid_tm t"
  shows "strftime 15 (fmt_date t) = Some (fmt_date t)"
    and "strftime 18 (fmt_hour t) = Some (fmt_hour t)"
    and "strftime 25 (fmt_file t) = Some (fmt_file t)"
proof -
  from assms have d: "length (fmt_date t) = 11" by (rule length_fmt_date)
  from assms have h: "length (pad2 (tm_hour t)) = 2" by (simp add: valid_tm_def length_pad2)
  show "strftime 15 (fmt_date t) = Some (fmt_date t)" using d by (simp add: strftime_def)
  show "strftime 18 (fmt_hour t) = Some (fmt_hour t)"
    using d h by (simp add: strftime_def fmt_hour_split)
  show "strftime 25 (fmt_file t) = Some (fmt_file t)"
    using d h by (simp add: strftime_def fmt_hour_split fmt_file_split)
qed

lemma dirname_paths:
  assumes "valid_tm t"
  shows "dirname (fmt_date t) = []"
    and "dirname (fmt_hour t) = fmt_date t"
    and "dirname (fmt_file t) = fmt_hour t"
proof -
  from assms have "fmt_date t = [] @ CHR ''/'' # tl (fmt_date t)"
    and "CHR ''/'' \<notin> set (tl (fmt_date t))"
    using fmt_date_no_slash_tl [of t] by simp_all
  then show "dirname (fmt_date t) = []" using dirname_append [of "tl (fmt_date t)" "[]"] by simp
  from assms have "CHR ''/'' \<notin> set (pad2 (tm_hour t))" by (simp add: valid_tm_def pad2_no_slash)
  then show "dirname (fmt_hour t) = fmt_date t" by (simp add: fmt_hour_split dirname_append)
  have "CHR ''/'' \<notin> set ''data.txt''" by simp
  then show "dirname (fmt_file t) = fmt_hour t" by (simp add: fmt_file_split dirname_append)
qed

lemma paths_differ:
  "fmt_date t \<noteq> fmt_hour t" "fmt_date t \<noteq> fmt_file t" "fmt_hour t \<noteq> fmt_file t"
  "fmt_hour t \<noteq> fmt_date t" "fmt_file t \<noteq> fmt_date t" "fmt_file t \<noteq> fmt_hour t"
  by (simp_all add: fmt_hour_split fmt_file_split)

lemma ensure_dir:
  assumes "mounted c" and "not_file c p" and "is_dir c (dirname p)"
  shows "(if \<not> SD_exists c p then SD_mkdir c p else c) = c\<lparr>nodes := (nodes c)(p \<mapsto> Dir)\<rparr>"
proof (cases "nodes c p")
  case None
  with assms show ?thesis by (simp add: SD_exists_def SD_mkdir_def)
next
  case (Some a)
  with assms have "nodes c p = Some Dir" by (cases a) (simp_all add: not_file_def)
  then have "(nodes c)(p \<mapsto> Dir) = nodes c" by (rule fun_upd_idem)
  with Some assms show ?thesis by (simp add: SD_exists_def)
qed

lemma open_append_text:
  assumes "mounted c" and "nodes c p \<noteq> Some Dir" and "is_dir c (dirname p)"
  shows "SD_open_append c p = Some (file_text c p)"
proof (cases "nodes c p")
  case None
  with assms show ?thesis by (simp add: SD_open_append_def file_text_def)
next
  case (Some a)
  with assms show ?thesis by (cases a) (simp_all add: SD_open_append_def file_text_def)
qed

lemma saveDataToSD_appends:
  assumes v: "valid_tm t" and r: "card_ready sdc t"
  shows "saveDataToSD L (Some t) tempv humv soilv luzv mq5v sdc =
           Some (sdc\<lparr>nodes := (nodes sdc)(fmt_date t \<mapsto> Dir, fmt_hour t \<mapsto> Dir,
                   fmt_file t \<mapsto> File (file_text sdc (fmt_file t)
                                       @ log_line L tempv humv soilv luzv mq5v))\<rparr>)"
proof -
  define c1 where "c1 = sdc\<lparr>nodes := (nodes sdc)(fmt_date t \<mapsto> Dir)\<rparr>"
  define c2 where "c2 = c1\<lparr>nodes := (nodes c1)(fmt_hour t \<mapsto> Dir)\<rparr>"
  from r have m: "mounted sdc" and nd: "not_file sdc (fmt_date t)"
    and nh: "not_file sdc (fmt_hour t)" and nf: "nodes sdc (fmt_file t) \<noteq> Some Dir"
    by (simp_all add: card_ready_def)
  have s1: "(if \<not> SD_exists sdc (fmt_date t) then SD_mkdir sdc (fmt_date t) else sdc) = c1"
    unfolding c1_def using m nd by (rule ensure_dir) (simp add: dirname_paths [OF v] is_dir_def)
  have "mounted c1" using m by (simp add: c1_def)
  moreover have "not_file c1 (fmt_hour t)"
    using nh paths_differ [of t] by (simp add: c1_def not_file_def)
  moreover have "is_dir c1 (dirname (fmt_hour t))"
    by (simp add: dirname_paths [OF v] is_dir_def c1_def)
  ultimately have s2:
    "(if \<not> SD_exists c1 (fmt_hour t) then SD_mkdir c1 (fmt_hour t) else c1) = c2"
    unfolding c2_def by (rule ensure_dir)
  have "mounted c2" using m by (simp add: c2_def c1_def)
  moreover have n2: "nodes c2 (fmt_file t) = nodes sdc (fmt_file t)"
    using paths_differ [of t] by (simp add: c2_def c1_def)
  moreover have "is_dir c2 (dirname (fmt_file t))"
    by (simp add: dirname_paths [OF v] is_dir_def c2_def)
  ultimately have "SD_open_append c2 (fmt_file t) = Some (file_text c2 (fmt_file t))"
    using nf by (intro open_append_text) simp_all
  moreover have "file_text c2 (fmt_file t) = file_text sdc (fmt_file t)"
    using n2 by (simp add: file_text_def)
  ultimately have s3: "SD_open_append c2 (fmt_file t) = Some (file_text sdc (fmt_file t))"
    by simp
  have "saveDataToSD L (Some t) tempv humv soilv luzv mq5v sdc =
          Some (c2\<lparr>nodes := (nodes c2)(fmt_file t \<mapsto>
                  File (file_text sdc (fmt_file t) @ log_line L tempv humv soilv luzv mq5v))\<rparr>)"
    by (simp add: saveDataToSD_def strftime_paths [OF v] s1 s2 s3)
  then show ?thesis by (simp add: c2_def c1_def)
qed

lemma saveDataToSD_Some:
  assumes "clock_ok now"
  shows "\<exists>c. saveDataToSD L now tempv humv soilv luzv mq5v sdc = Some c"
proof (cases now)
  case None
  then show ?thesis by (simp add: saveDataToSD_def)
next
  case (Some t)
  with assms have v: "valid_tm t" by (simp add: clock_ok_def)
  show ?thesis unfolding Some
    by (simp add: saveDataToSD_def strftime_paths [OF v] Let_def split: option.splits)
qed

section \<open>The receive callback\<close>

lemma byte_high_bits: "bit (b :: byte) n \<Longrightarrow> n < 8"
  using bit_imp_le_length [of b n] by simp

lemma le32_bytes:
  "ucast (le32 bs) = bs ! 0"
  "ucast (drop_bit 8 (le32 bs)) = bs ! 1"
  "ucast (drop_bit 16 (le32 bs)) = bs ! 2"
  "ucast (drop_bit 24 (le32 bs)) = bs ! 3"
  by (rule bit_word_eqI; auto simp add: le32_def bit_simps dest: byte_high_bits)+

lemma le32_byte: "i < 4 \<Longrightarrow> ucast (drop_bit (8 * i) (le32 bs)) = bs ! i"
proof -
  assume "i < 4"
  then consider "i = 0" | "i = 1" | "i = 2" | "i = 3" by linarith
  then show ?thesis by cases (simp_all add: le32_bytes)
qed

lemma le32_take: "le32 (take 4 bs) = le32 bs"
  by (simp add: le32_def)

lemma le32_drop: "n + 4 \<le> length bs \<Longrightarrow> le32 (drop n bs) = le32 [bs ! n, bs ! (n + 1), bs ! (n + 2), bs ! (n + 3)]"
  by (simp add: le32_def)

lemma decode_soil_bytes:
  "i < 4 \<Longrightarrow> ucast (drop_bit (8 * i) (soil (decode_soil incoming))) = incoming ! i"
  by (simp add: decode_soil_def le32_take le32_byte)

lemma decode_dht_bytes:
  assumes "length incoming = 16" and "i < 4"
  shows "ucast (drop_bit (8 * i) (temp (decode_dht incoming))) = incoming ! i"
    and "ucast (drop_bit (8 * i) (hum (decode_dht incoming))) = incoming ! (4 + i)"
    and "ucast (drop_bit (8 * i) (luz (decode_dht incoming))) = incoming ! (8 + i)"
    and "ucast (drop_bit (8 * i) (mq5 (decode_dht incoming))) = incoming ! (12 + i)"
proof -
  from assms(2) have n: "[a, b, c, d] ! i = (if i = 0 then a else if i = 1 then b
      else if i = 2 then c else d)" for a b c d :: byte
    by (cases i) (auto simp add: nth_Cons')
  from assms(2) consider "i = 0" | "i = 1" | "i = 2" | "i = 3" by linarith
  note c = this
  show "ucast (drop_bit (8 * i) (temp (decode_dht incoming))) = incoming ! i"
    using assms(2) by (simp add: decode_dht_def le32_take le32_byte)
  have "ucast (drop_bit (8 * i) (le32 (drop 4 incoming))) = drop 4 incoming ! i"
    using assms(2) by (rule le32_byte)
  then show "ucast (drop_bit (8 * i) (hum (decode_dht incoming))) = incoming ! (4 + i)"
    using assms by (simp add: decode_dht_def le32_take)
  have "ucast (drop_bit (8 * i) (le32 (drop 8 incoming))) = drop 8 incoming ! i"
    using assms(2) by (rule le32_byte)
  then show "ucast (drop_bit (8 * i) (luz (decode_dht incoming))) = incoming ! (8 + i)"
    using assms by (simp add: decode_dht_def le32_take)
  have "ucast (drop_bit (8 * i) (le32 (drop 12 incoming))) = drop 12 incoming ! i"
    using assms(2) by (rule le32_byte)
  then show "ucast (drop_bit (8 * i) (mq5 (decode_dht incoming))) = incoming ! (12 + i)"
    using assms by (simp add: decode_dht_def le32_take)
qed

lemma MACs_differ: "soilSenderMAC \<noteq> unifiedSenderMAC"
  by (simp add: soilSenderMAC_def unifiedSenderMAC_def)

lemma sizes_differ: "sizeof_soil_message_t \<noteq> sizeof_dht_message_t"
  by (simp add: sizeof_soil_message_t_def sizeof_dht_message_t_def)

lemma OnDataRecv_soil:
  assumes "take 6 src_addr = soilSenderMAC" and "length incoming = sizeof_soil_message_t"
  shows "OnDataRecv L now src_addr incoming st =
           (case xQueueSend (soilQueue st) (decode_soil incoming) of
              None \<Rightarrow> Suspended st
            | Some q \<Rightarrow>
                (case saveDataToSD L now 0 0 (soil (decode_soil incoming)) 0 0 (SD_MMC st) of
                   None \<Rightarrow> Indeterminate
                 | Some sdc \<Rightarrow> Returned (st\<lparr>soilQueue := q, SD_MMC := sdc\<rparr>)))"
  using assms by (simp add: OnDataRecv_def Let_def)

lemma OnDataRecv_dht:
  assumes "take 6 src_addr = unifiedSenderMAC" and "length incoming = sizeof_dht_message_t"
  shows "OnDataRecv L now src_addr incoming st =
           (case xQueueSend (dhtQueue st) (decode_dht incoming) of
              None \<Rightarrow> Suspended st
            | Some q \<Rightarrow>
                (case saveDataToSD L now (temp (decode_dht incoming)) (hum (decode_dht incoming)) 0
                        (luz (decode_dht incoming)) (mq5 (decode_dht incoming)) (SD_MMC st) of
                   None \<Rightarrow> Indeterminate
                 | Some sdc \<Rightarrow> Returned (st\<lparr>dhtQueue := q, SD_MMC := sdc\<rparr>)))"
  using assms MACs_differ sizes_differ by (auto simp add: OnDataRecv_def Let_def)

lemma decode_soil_payload_25: "decode_soil soil_payload_25 = soil_sample_25"
  by (simp add: decode_soil_def soil_payload_25_def soil_sample_25_def le32_def)

lemma decode_dht_payload_31: "decode_dht dht_payload_31 = dht_sample_31"
  by (simp add: decode_dht_def dht_payload_31_def dht_sample_31_def le32_def)

lemma valid_march_1st: "valid_tm march_1st" "valid_tm march_1st_later"
  by (simp_all add: valid_tm_def march_1st_def march_1st_later_def)

text \<open>
  C7. When \<^verbatim>\<open>getLocalTime\<close> gives no time, \<^verbatim>\<open>saveDataToSD\<close> returns at once: the card
  is exactly as before (no directory made, no file opened or extended), and the function
  keeps nothing of the record for later.
\<close>

theorem saveDataToSD_without_time:
  "saveDataToSD L None tempv humv soilv luzv mq5v sdc = Some sdc"
  by (simp add: saveDataToSD_def)

text \<open>
  C2. A payload from an address that is neither registered sender's, or from a
  registered sender with a length other than that sender's struct size, makes
  \<^verbatim>\<open>OnDataRecv\<close> return with the whole state unchanged: no queue grows and the card is
  not touched.
\<close>

theorem OnDataRecv_drops:
  assumes "(take 6 src_addr \<noteq> soilSenderMAC \<and> take 6 src_addr \<noteq> unifiedSenderMAC)
           \<or> (take 6 src_addr = soilSenderMAC \<and> length incoming \<noteq> 4)
           \<or> (take 6 src_addr = unifiedSenderMAC \<and> length incoming \<noteq> 16)"
  shows "OnDataRecv L now src_addr incoming st = Returned st"
  using assms MACs_differ
  by (auto simp add: OnDataRecv_def sizeof_soil_message_t_def sizeof_dht_message_t_def)

theorem OnDataRecv_drops_witness:
  "OnDataRecv ref_textlib (Some march_1st) soilSenderMAC dht_payload_31 one_dht_record
     = Returned one_dht_record
   \<and> OnDataRecv ref_textlib (Some march_1st) unifiedSenderMAC soil_payload_25 one_dht_record
     = Returned one_dht_record
   \<and> OnDataRecv ref_textlib (Some march_1st) [0x5C, 0x01, 0x3B, 0x72, 0xF2, 0xCC]
        soil_payload_25 one_dht_record
     = Returned one_dht_record"
proof -
  have a: "take 6 soilSenderMAC = soilSenderMAC \<and> length dht_payload_31 \<noteq> 4"
    by (simp add: soilSenderMAC_def dht_payload_31_def)
  have b: "take 6 unifiedSenderMAC = unifiedSenderMAC \<and> length soil_payload_25 \<noteq> 16"
    by (simp add: unifiedSenderMAC_def soil_payload_25_def)
  have c: "take 6 [0x5C, 0x01, 0x3B, 0x72, 0xF2, 0xCC] \<noteq> soilSenderMAC
           \<and> take 6 [0x5C, 0x01, 0x3B, 0x72, 0xF2, 0xCC :: byte] \<noteq> unifiedSenderMAC"
    by (simp add: soilSenderMAC_def unifiedSenderMAC_def)
  show ?thesis
    using OnDataRecv_drops [of soilSenderMAC dht_payload_31] a
      OnDataRecv_drops [of unifiedSenderMAC soil_payload_25] b
      OnDataRecv_drops [of "[0x5C, 0x01, 0x3B, 0x72, 0xF2, 0xCC]" soil_payload_25] c
    by simp
qed

text \<open>
  C1. A payload from the soil sender with the size of \<^verbatim>\<open>soil_message_t\<close> (4 bytes) is
  decoded as a soil record, the four payload bytes being the bytes of the \<^verbatim>\<open>float\<close> in
  memory order, and appended to \<^verbatim>\<open>soilQueue\<close>; one from the environment sender with the
  size of \<^verbatim>\<open>dht_message_t\<close> (16 bytes) is decoded as an environment record, bytes 0 to 3
  being the temperature, 4 to 7 the humidity, 8 to 11 the light and 12 to 15 the gas
  index, and appended to \<^verbatim>\<open>dhtQueue\<close>. In both cases the other queue and the alert queue
  stay as they are (only the written queue and the card change). The send waits for
  room: on a full queue the callback is suspended with nothing changed.
\<close>

theorem OnDataRecv_routes:
  assumes "clock_ok now"
  shows "(take 6 src_addr = soilSenderMAC \<and> length incoming = 4 \<longrightarrow>
            (\<forall>i<4. ucast (drop_bit (8 * i) (soil (decode_soil incoming))) = incoming ! i)
          \<and> (if length (soilQueue st) < 5
             then \<exists>sdc. OnDataRecv L now src_addr incoming st =
                    Returned (st\<lparr>soilQueue := soilQueue st @ [decode_soil incoming],
                                 SD_MMC := sdc\<rparr>)
             else OnDataRecv L now src_addr incoming st = Suspended st))
       \<and> (take 6 src_addr = unifiedSenderMAC \<and> length incoming = 16 \<longrightarrow>
            (\<forall>i<4. ucast (drop_bit (8 * i) (temp (decode_dht incoming))) = incoming ! i
                  \<and> ucast (drop_bit (8 * i) (hum (decode_dht incoming))) = incoming ! (4 + i)
                  \<and> ucast (drop_bit (8 * i) (luz (decode_dht incoming))) = incoming ! (8 + i)
                  \<and> ucast (drop_bit (8 * i) (mq5 (decode_dht incoming))) = incoming ! (12 + i))
          \<and> (if length (dhtQueue st) < 5
             then \<exists>sdc. OnDataRecv L now src_addr incoming st =
                    Returned (st\<lparr>dhtQueue := dhtQueue st @ [decode_dht incoming],
                                 SD_MMC := sdc\<rparr>)
             else OnDataRecv L now src_addr incoming st = Suspended st))"
proof (intro conjI impI allI)
  fix i :: nat
  assume "i < 4"
  then show "ucast (drop_bit (8 * i) (soil (decode_soil incoming))) = incoming ! i"
    by (rule decode_soil_bytes)
next
  assume a: "take 6 src_addr = soilSenderMAC \<and> length incoming = 4"
  obtain c where c: "saveDataToSD L now 0 0 (soil (decode_soil incoming)) 0 0 (SD_MMC st) = Some c"
    using saveDataToSD_Some [OF assms] by blast
  from a show "if length (soilQueue st) < 5
     then \<exists>sdc. OnDataRecv L now src_addr incoming st =
            Returned (st\<lparr>soilQueue := soilQueue st @ [decode_soil incoming], SD_MMC := sdc\<rparr>)
     else OnDataRecv L now src_addr incoming st = Suspended st"
    by (auto simp add: OnDataRecv_soil sizeof_soil_message_t_def xQueueSend_def QUEUE_LENGTH_def c)
next
  fix i :: nat
  assume a: "take 6 src_addr = unifiedSenderMAC \<and> length incoming = 16" and i: "i < 4"
  then have l: "length incoming = 16" by simp
  show "ucast (drop_bit (8 * i) (temp (decode_dht incoming))) = incoming ! i"
    using l i by (rule decode_dht_bytes)
  show "ucast (drop_bit (8 * i) (hum (decode_dht incoming))) = incoming ! (4 + i)"
    using l i by (rule decode_dht_bytes)
  show "ucast (drop_bit (8 * i) (luz (decode_dht incoming))) = incoming ! (8 + i)"
    using l i by (rule decode_dht_bytes)
  show "ucast (drop_bit (8 * i) (mq5 (decode_dht incoming))) = incoming ! (12 + i)"
    using l i by (rule decode_dht_bytes)
next
  assume a: "take 6 src_addr = unifiedSenderMAC \<and> length incoming = 16"
  obtain c where c: "saveDataToSD L now (temp (decode_dht incoming)) (hum (decode_dht incoming)) 0
      (luz (decode_dht incoming)) (mq5 (decode_dht incoming)) (SD_MMC st) = Some c"
    using saveDataToSD_Some [OF assms] by blast
  from a show "if length (dhtQueue st) < 5
     then \<exists>sdc. OnDataRecv L now src_addr incoming st =
            Returned (st\<lparr>dhtQueue := dhtQueue st @ [decode_dht incoming], SD_MMC := sdc\<rparr>)
     else OnDataRecv L now src_addr incoming st = Suspended st"
    by (auto simp add: OnDataRecv_dht sizeof_dht_message_t_def xQueueSend_def QUEUE_LENGTH_def c)
qed

theorem OnDataRecv_routes_witness:
  "(\<exists>sdc. OnDataRecv ref_textlib (Some march_1st) soilSenderMAC soil_payload_25 (setup_node True)
      = Returned ((setup_node True)\<lparr>soilQueue := [soil_sample_25], SD_MMC := sdc\<rparr>))
   \<and> soil (decode_soil soil_payload_25) = 0x41C80000
   \<and> ucast (drop_bit 16 (soil (decode_soil soil_payload_25))) = soil_payload_25 ! 2
   \<and> (\<exists>sdc. OnDataRecv ref_textlib (Some march_1st) unifiedSenderMAC dht_payload_31
              (setup_node True)
      = Returned ((setup_node True)\<lparr>dhtQueue := [dht_sample_31], SD_MMC := sdc\<rparr>))
   \<and> ucast (drop_bit 24 (hum (decode_dht dht_payload_31))) = dht_payload_31 ! 7"
proof -
  have k: "clock_ok (Some march_1st)" by (simp add: clock_ok_def valid_march_1st)
  have a: "take 6 soilSenderMAC = soilSenderMAC \<and> length soil_payload_25 = 4"
    by (simp add: soilSenderMAC_def soil_payload_25_def)
  have b: "take 6 unifiedSenderMAC = unifiedSenderMAC \<and> length dht_payload_31 = 16"
    by (simp add: unifiedSenderMAC_def dht_payload_31_def)
  have q: "soilQueue (setup_node True) = []" "dhtQueue (setup_node True) = []"
    by (simp_all add: setup_node_def)
  note s = OnDataRecv_routes [OF k, of soilSenderMAC soil_payload_25 "setup_node True" ref_textlib]
  note d = OnDataRecv_routes [OF k, of unifiedSenderMAC dht_payload_31 "setup_node True" ref_textlib]
  from s a have s1: "\<forall>i<4. ucast (drop_bit (8 * i) (soil (decode_soil soil_payload_25)))
      = soil_payload_25 ! i"
    and s2: "\<exists>sdc. OnDataRecv ref_textlib (Some march_1st) soilSenderMAC soil_payload_25
        (setup_node True)
      = Returned ((setup_node True)\<lparr>soilQueue := [soil_sample_25], SD_MMC := sdc\<rparr>)"
    by (simp_all add: q decode_soil_payload_25)
  from d b have d1: "\<forall>i<4. ucast (drop_bit (8 * i) (hum (decode_dht dht_payload_31)))
      = dht_payload_31 ! (4 + i)"
    and d2: "\<exists>sdc. OnDataRecv ref_textlib (Some march_1st) unifiedSenderMAC dht_payload_31
        (setup_node True)
      = Returned ((setup_node True)\<lparr>dhtQueue := [dht_sample_31], SD_MMC := sdc\<rparr>)"
    by (simp_all add: q decode_dht_payload_31)
  from s1 [rule_format, of 2] have "ucast (drop_bit (8 * 2) (soil (decode_soil soil_payload_25)))
      = soil_payload_25 ! 2"
    by simp
  moreover from d1 [rule_format, of 3] have "ucast (drop_bit (8 * 3) (hum (decode_dht dht_payload_31)))
      = dht_payload_31 ! (4 + 3)"
    by simp
  moreover have "soil (decode_soil soil_payload_25) = 0x41C80000"
    by (simp add: decode_soil_payload_25 soil_sample_25_def)
  ultimately show ?thesis using s2 d2 by simp
qed

section \<open>The storage writer\<close>

lemma same_hour_paths:
  assumes "tm_year t2 = tm_year t1" and "tm_mon t2 = tm_mon t1"
    and "tm_mday t2 = tm_mday t1" and "tm_hour t2 = tm_hour t1"
  shows "fmt_date t2 = fmt_date t1" and "fmt_hour t2 = fmt_hour t1"
    and "fmt_file t2 = fmt_file t1"
  using assms by (simp_all add: fmt_date_def fmt_hour_def fmt_file_def)

lemma fmt_file_shape:
  "fmt_file t = ''/'' @ dec_int (tm_year t + 1900) @ ''-'' @ pad2 (tm_mon t + 1) @ ''-''
                @ pad2 (tm_mday t) @ ''/'' @ pad2 (tm_hour t) @ ''/data.txt''"
  by (simp add: fmt_file_def fmt_hour_def fmt_date_def)

lemma card_ready_empty: "card_ready empty_card t"
  by (simp add: card_ready_def empty_card_def not_file_def)

text \<open>
  C5, as the code has it. With a calendar time and a card that can take the record,
  \<^verbatim>\<open>saveDataToSD\<close> builds the path \<^verbatim>\<open>/YYYY-MM-DD/HH/data.txt\<close> from the time, makes
  the date and the hour directory where they are missing (and leaves them alone where
  they are there), and appends exactly one line to the file at that path. A second
  call at another time of the same hour appends its line after the first, to the same
  file, and changes nothing else.
\<close>

theorem saveDataToSD_same_hour:
  assumes v1: "valid_tm t1" and v2: "valid_tm t2"
    and same: "tm_year t2 = tm_year t1 \<and> tm_mon t2 = tm_mon t1
               \<and> tm_mday t2 = tm_mday t1 \<and> tm_hour t2 = tm_hour t1"
    and ready: "card_ready sdc t1"
  shows "\<exists>c1 c2.
           saveDataToSD L (Some t1) temp1 hum1 soil1 luz1 gas1 sdc = Some c1
         \<and> saveDataToSD L (Some t2) temp2 hum2 soil2 luz2 gas2 c1 = Some c2
         \<and> fmt_file t1 = ''/'' @ dec_int (tm_year t1 + 1900) @ ''-'' @ pad2 (tm_mon t1 + 1)
                          @ ''-'' @ pad2 (tm_mday t1) @ ''/'' @ pad2 (tm_hour t1) @ ''/data.txt''
         \<and> nodes c1 = (nodes sdc)(fmt_date t1 \<mapsto> Dir, fmt_hour t1 \<mapsto> Dir,
                         fmt_file t1 \<mapsto> File (file_text sdc (fmt_file t1)
                                               @ log_line L temp1 hum1 soil1 luz1 gas1))
         \<and> nodes c2 = (nodes c1)(fmt_file t1 \<mapsto>
                         File (file_text sdc (fmt_file t1)
                               @ log_line L temp1 hum1 soil1 luz1 gas1
                               @ log_line L temp2 hum2 soil2 luz2 gas2))
         \<and> mounted c2 = mounted sdc"
proof -
  let ?l1 = "log_line L temp1 hum1 soil1 luz1 gas1"
  let ?l2 = "log_line L temp2 hum2 soil2 luz2 gas2"
  define c1 where "c1 = sdc\<lparr>nodes := (nodes sdc)(fmt_date t1 \<mapsto> Dir, fmt_hour t1 \<mapsto> Dir,
                     fmt_file t1 \<mapsto> File (file_text sdc (fmt_file t1) @ ?l1))\<rparr>"
  have first: "saveDataToSD L (Some t1) temp1 hum1 soil1 luz1 gas1 sdc = Some c1"
    unfolding c1_def using v1 ready by (rule saveDataToSD_appends)
  from same have p: "fmt_date t2 = fmt_date t1" "fmt_hour t2 = fmt_hour t1"
    "fmt_file t2 = fmt_file t1"
    using same_hour_paths [of t2 t1] by simp_all
  from ready have m: "mounted c1" by (simp add: c1_def card_ready_def)
  have d: "nodes c1 (fmt_date t1) = Some Dir" "nodes c1 (fmt_hour t1) = Some Dir"
    "nodes c1 (fmt_file t1) = Some (File (file_text sdc (fmt_file t1) @ ?l1))"
    using paths_differ [of t1] by (simp_all add: c1_def)
  then have t: "file_text c1 (fmt_file t1) = file_text sdc (fmt_file t1) @ ?l1"
    by (simp add: file_text_def)
  have "card_ready c1 t2" using m d by (simp add: card_ready_def not_file_def p)
  with v2 have "saveDataToSD L (Some t2) temp2 hum2 soil2 luz2 gas2 c1 =
      Some (c1\<lparr>nodes := (nodes c1)(fmt_date t2 \<mapsto> Dir, fmt_hour t2 \<mapsto> Dir,
              fmt_file t2 \<mapsto> File (file_text c1 (fmt_file t2) @ ?l2))\<rparr>)"
    by (rule saveDataToSD_appends)
  moreover have "(nodes c1)(fmt_date t1 \<mapsto> Dir) = nodes c1"
    using d(1) by (rule fun_upd_idem)
  moreover have "(nodes c1)(fmt_hour t1 \<mapsto> Dir) = nodes c1"
    using d(2) by (rule fun_upd_idem)
  ultimately have second: "saveDataToSD L (Some t2) temp2 hum2 soil2 luz2 gas2 c1 =
      Some (c1\<lparr>nodes := (nodes c1)(fmt_file t1 \<mapsto>
              File (file_text sdc (fmt_file t1) @ ?l1 @ ?l2))\<rparr>)"
    by (simp add: p t)
  have "mounted c1 = mounted sdc" by (simp add: c1_def)
  with first second fmt_file_shape [of t1] show ?thesis
    by (intro exI [of _ c1] exI [of _ "c1\<lparr>nodes := (nodes c1)(fmt_file t1 \<mapsto>
              File (file_text sdc (fmt_file t1) @ ?l1 @ ?l2))\<rparr>"]) (simp add: c1_def)
qed

theorem saveDataToSD_same_hour_witness:
  "\<exists>c1 c2.
      saveDataToSD ref_textlib (Some march_1st) 0 0 0x41C80000 0 0 empty_card = Some c1
    \<and> saveDataToSD ref_textlib (Some march_1st_later) 0x41F80000 0x42480000 0 0 0 c1 = Some c2
    \<and> nodes c1 ''/2024-03-01'' = Some Dir \<and> nodes c1 ''/2024-03-01/14'' = Some Dir
    \<and> nodes c1 ''/2024-03-01/14/data.txt''
        = Some (File (log_line ref_textlib 0 0 0x41C80000 0 0))
    \<and> nodes c2 ''/2024-03-01/14/data.txt''
        = Some (File (log_line ref_textlib 0 0 0x41C80000 0 0
                      @ log_line ref_textlib 0x41F80000 0x42480000 0 0 0))"
proof -
  have same: "tm_year march_1st_later = tm_year march_1st
      \<and> tm_mon march_1st_later = tm_mon march_1st
      \<and> tm_mday march_1st_later = tm_mday march_1st
      \<and> tm_hour march_1st_later = tm_hour march_1st"
    by (simp add: march_1st_def march_1st_later_def)
  have e: "file_text empty_card p = []" for p
    by (simp add: file_text_def empty_card_def)
  have "\<exists>c1 c2.
      saveDataToSD ref_textlib (Some march_1st) 0 0 0x41C80000 0 0 empty_card = Some c1
    \<and> saveDataToSD ref_textlib (Some march_1st_later) 0x41F80000 0x42480000 0 0 0 c1 = Some c2
    \<and> nodes c1 = (nodes empty_card)(''/2024-03-01'' \<mapsto> Dir, ''/2024-03-01/14'' \<mapsto> Dir,
        ''/2024-03-01/14/data.txt'' \<mapsto> File (log_line ref_textlib 0 0 0x41C80000 0 0))
    \<and> nodes c2 = (nodes c1)(''/2024-03-01/14/data.txt'' \<mapsto>
        File (log_line ref_textlib 0 0 0x41C80000 0 0
              @ log_line ref_textlib 0x41F80000 0x42480000 0 0 0))"
    using saveDataToSD_same_hour [OF valid_march_1st(1) valid_march_1st(2) same card_ready_empty,
      where L = ref_textlib and ?temp1.0 = 0 and ?hum1.0 = 0 and ?soil1.0 = "0x41C80000"
        and ?luz1.0 = 0 and ?gas1.0 = 0 and ?temp2.0 = "0x41F80000" and ?hum2.0 = "0x42480000"
        and ?soil2.0 = 0 and ?luz2.0 = 0 and ?gas2.0 = 0]
    unfolding march_1st_paths e append_Nil by blast
  then obtain c1 c2 where
    a: "saveDataToSD ref_textlib (Some march_1st) 0 0 0x41C80000 0 0 empty_card = Some c1"
    and b: "saveDataToSD ref_textlib (Some march_1st_later) 0x41F80000 0x42480000 0 0 0 c1
              = Some c2"
    and n1: "nodes c1 = (nodes empty_card)(''/2024-03-01'' \<mapsto> Dir, ''/2024-03-01/14'' \<mapsto> Dir,
        ''/2024-03-01/14/data.txt'' \<mapsto> File (log_line ref_textlib 0 0 0x41C80000 0 0))"
    and n2: "nodes c2 = (nodes c1)(''/2024-03-01/14/data.txt'' \<mapsto>
        File (log_line ref_textlib 0 0 0x41C80000 0 0
              @ log_line ref_textlib 0x41F80000 0x42480000 0 0 0))"
    by blast
  have "nodes c1 ''/2024-03-01'' = Some Dir" "nodes c1 ''/2024-03-01/14'' = Some Dir"
    "nodes c1 ''/2024-03-01/14/data.txt'' = Some (File (log_line ref_textlib 0 0 0x41C80000 0 0))"
    by (simp_all add: n1)
  moreover have "nodes c2 ''/2024-03-01/14/data.txt''
        = Some (File (log_line ref_textlib 0 0 0x41C80000 0 0
                      @ log_line ref_textlib 0x41F80000 0x42480000 0 0 0))"
    by (simp add: n2)
  ultimately show ?thesis using a b by blast
qed

text \<open>
  C5 as stated names the file \<^verbatim>\<open>/2024-03-01/14/data\<close>. After one call at 14:22 on the
  first of March 2024 on an empty mounted card there is nothing at that path: the line
  is in \<^verbatim>\<open>/2024-03-01/14/data.txt\<close>.
\<close>

theorem saveDataToSD_path_counterexample:
  "saveDataToSD ref_textlib (Some march_1st) 0 0 0x41C80000 0 0 empty_card \<noteq> None
   \<and> nodes (the (saveDataToSD ref_textlib (Some march_1st) 0 0 0x41C80000 0 0 empty_card))
        ''/2024-03-01/14/data'' = None
   \<and> nodes (the (saveDataToSD ref_textlib (Some march_1st) 0 0 0x41C80000 0 0 empty_card))
        ''/2024-03-01/14/data.txt''
      = Some (File (''Temp: 0.0'' @ DEG @ ''C, Hum: 0.0%, Suelo: 25.0%, Luz: 0, MQ5: 0'' @ NL))"
proof -
  have "saveDataToSD ref_textlib (Some march_1st) 0 0 0x41C80000 0 0 empty_card =
      Some (empty_card\<lparr>nodes := (nodes empty_card)(''/2024-03-01'' \<mapsto> Dir,
        ''/2024-03-01/14'' \<mapsto> Dir,
        ''/2024-03-01/14/data.txt'' \<mapsto> File (file_text empty_card ''/2024-03-01/14/data.txt''
           @ log_line ref_textlib 0 0 0x41C80000 0 0))\<rparr>)"
    using saveDataToSD_appends [OF valid_march_1st(1) card_ready_empty]
    by (simp only: march_1st_paths)
  then show ?thesis
    by (simp add: log_line_examples file_text_def empty_card_def)
qed

section \<open>The evaluator tasks\<close>

lemma enqueue_alert_empty: "enqueue_alert t [] avail st = Returned st"
  by (simp add: enqueue_alert_def)

lemma send_alert_cases:
  "send_alert t buf st =
     (if length (msgQueue st) < QUEUE_LENGTH
      then Returned (st\<lparr>msgQueue := msgQueue st @ [buf], held := (held st)(t := None)\<rparr>)
      else Suspended (st\<lparr>held := (held st)(t \<mapsto> buf)\<rparr>))"
  by (simp add: send_alert_def xQueueSend_def)

lemma send_alert_first:
  assumes "held st t = None"
  shows "send_alert t buf st =
     (if length (msgQueue st) < 5
      then Returned (st\<lparr>msgQueue := msgQueue st @ [buf]\<rparr>)
      else Suspended (st\<lparr>held := (held st)(t \<mapsto> buf)\<rparr>))"
proof -
  have "(held st)(t := None) = held st" using assms by (rule fun_upd_idem)
  then show ?thesis by (simp add: send_alert_cases QUEUE_LENGTH_def)
qed

lemma enqueue_alert_text:
  assumes "msg \<noteq> []"
  shows "enqueue_alert t msg True st =
           send_alert t (Suc (brk st))
             (st\<lparr>brk := Suc (brk st), cells := (cells st)(Suc (brk st) \<mapsto> msg @ [CHR 0x00])\<rparr>)"
    and "enqueue_alert t msg False st = send_alert t 0 st"
  using assms by (simp_all add: enqueue_alert_def malloc_def toCharArray_def Let_def)

lemma DHTTask_head:
  "dhtQueue st = d # rest \<Longrightarrow> held st DHT_task = None \<Longrightarrow>
     DHTTask L avail st = enqueue_alert DHT_task (DHT_msg L d) avail (st\<lparr>dhtQueue := rest\<rparr>)"
  by (simp add: DHTTask_def xQueueReceive_def)

lemma SoilTask_head:
  "soilQueue st = s # rest \<Longrightarrow> held st Soil_task = None \<Longrightarrow>
     SoilTask L avail st = enqueue_alert Soil_task (Soil_msg L s) avail (st\<lparr>soilQueue := rest\<rparr>)"
  by (simp add: SoilTask_def xQueueReceive_def)

text \<open>
  An iteration of an evaluator that has built a text that is not empty, for both
  answers of \<^verbatim>\<open>malloc\<close> and both states of the alert queue.
\<close>

lemma DHTTask_alert:
  assumes "dhtQueue st = d # rest" and "held st DHT_task = None" and "DHT_msg L d \<noteq> []"
  shows "DHTTask L True st =
      (if length (msgQueue st) < 5
       then Returned (st\<lparr>dhtQueue := rest,
              cells := (cells st)(Suc (brk st) \<mapsto> DHT_msg L d @ [CHR 0x00]),
              brk := Suc (brk st), msgQueue := msgQueue st @ [Suc (brk st)]\<rparr>)
       else Suspended (st\<lparr>dhtQueue := rest,
              cells := (cells st)(Suc (brk st) \<mapsto> DHT_msg L d @ [CHR 0x00]),
              brk := Suc (brk st), held := (held st)(DHT_task \<mapsto> Suc (brk st))\<rparr>))"
    and "DHTTask L False st =
      (if length (msgQueue st) < 5
       then Returned (st\<lparr>dhtQueue := rest, msgQueue := msgQueue st @ [0]\<rparr>)
       else Suspended (st\<lparr>dhtQueue := rest, held := (held st)(DHT_task \<mapsto> 0)\<rparr>))"
  using assms
  by (simp_all add: DHTTask_head [OF assms(1,2)] enqueue_alert_text send_alert_first)

lemma SoilTask_alert:
  assumes "soilQueue st = s # rest" and "held st Soil_task = None" and "Soil_msg L s \<noteq> []"
  shows "SoilTask L True st =
      (if length (msgQueue st) < 5
       then Returned (st\<lparr>soilQueue := rest,
              cells := (cells st)(Suc (brk st) \<mapsto> Soil_msg L s @ [CHR 0x00]),
              brk := Suc (brk st), msgQueue := msgQueue st @ [Suc (brk st)]\<rparr>)
       else Suspended (st\<lparr>soilQueue := rest,
              cells := (cells st)(Suc (brk st) \<mapsto> Soil_msg L s @ [CHR 0x00]),
              brk := Suc (brk st), held := (held st)(Soil_task \<mapsto> Suc (brk st))\<rparr>))"
    and "SoilTask L False st =
      (if length (msgQueue st) < 5
       then Returned (st\<lparr>soilQueue := rest, msgQueue := msgQueue st @ [0]\<rparr>)
       else Suspended (st\<lparr>soilQueue := rest, held := (held st)(Soil_task \<mapsto> 0)\<rparr>))"
  using assms
  by (simp_all add: SoilTask_head [OF assms(1,2)] enqueue_alert_text send_alert_first)

lemma int_val_gt: "f_gt (int_val i) (numeral k) = (numeral k < sint i)"
proof -
  have "((numeral k :: rat) < of_int (sint i)) = ((of_int (numeral k) :: rat) < of_int (sint i))"
    by simp
  also have "\<dots> = (numeral k < sint i)" by (rule of_int_less_iff)
  finally show ?thesis by (simp add: f_gt_def int_val_def)
qed

lemma DHT_msg_refines: "DHT_msg L d = spec_environment_alert L d"
  by (simp add: DHT_msg_def spec_environment_alert_def condition_fires_def condition_line_def
      TEMP_THRESHOLD_def HUM_THRESHOLD_def LDR_THRESHOLD_def MQ5_THRESHOLD_def int_val_gt)

lemma signs_not_null:
  "hd (TXT_TEMP @ x) \<noteq> CHR 0x00" "hd (TXT_HUM @ x) \<noteq> CHR 0x00"
  "hd (TXT_LUZ @ x) \<noteq> CHR 0x00" "hd (TXT_GAS @ x) \<noteq> CHR 0x00"
  "hd (TXT_SECO @ x) \<noteq> CHR 0x00" "hd (TXT_HUMEDO @ x) \<noteq> CHR 0x00"
  by (simp_all add: TXT_TEMP_def TXT_HUM_def TXT_LUZ_def TXT_GAS_def TXT_SECO_def
      TXT_HUMEDO_def)

lemma signs_not_empty:
  "TXT_TEMP \<noteq> []" "TXT_HUM \<noteq> []" "TXT_LUZ \<noteq> []" "TXT_GAS \<noteq> []"
  "TXT_SECO \<noteq> []" "TXT_HUMEDO \<noteq> []"
  by (simp_all add: TXT_TEMP_def TXT_HUM_def TXT_LUZ_def TXT_GAS_def TXT_SECO_def
      TXT_HUMEDO_def)

lemma DHT_msg_starts:
  assumes "DHT_msg L d \<noteq> []"
  shows "hd (DHT_msg L d) \<noteq> CHR 0x00"
proof -
  let ?t = "f_gt (float_val (temp d)) TEMP_THRESHOLD"
  let ?h = "f_gt (float_val (hum d)) HUM_THRESHOLD"
  let ?l = "f_gt (int_val (luz d)) LDR_THRESHOLD"
  let ?g = "f_gt (int_val (mq5 d)) MQ5_THRESHOLD"
  consider (t) "?t" | (h) "\<not> ?t" "?h" | (l) "\<not> ?t" "\<not> ?h" "?l"
    | (g) "\<not> ?t" "\<not> ?h" "\<not> ?l" "?g" | (none) "\<not> ?t" "\<not> ?h" "\<not> ?l" "\<not> ?g"
    by blast
  then show ?thesis
  proof cases
    case t
    then show ?thesis using signs_not_null(1) by (simp add: DHT_msg_def Let_def)
  next
    case h
    then show ?thesis using signs_not_null(2) by (simp add: DHT_msg_def Let_def)
  next
    case l
    then show ?thesis using signs_not_null(3) by (simp add: DHT_msg_def Let_def)
  next
    case g
    then show ?thesis using signs_not_null(4) by (simp add: DHT_msg_def Let_def)
  next
    case none
    with assms show ?thesis by (simp add: DHT_msg_def)
  qed
qed

lemma Soil_msg_starts:
  assumes "Soil_msg L s \<noteq> []"
  shows "hd (Soil_msg L s) \<noteq> CHR 0x00"
  using assms signs_not_null(5,6) by (auto simp add: Soil_msg_def split: if_splits)

lemma DHT_msg_empty_iff:
  "(DHT_msg L d = []) =
     (\<not> f_gt (float_val (temp d)) 30 \<and> \<not> f_gt (float_val (hum d)) 80
      \<and> \<not> 700 < sint (luz d) \<and> \<not> 1500 < sint (mq5 d))"
  using signs_not_empty
  by (simp add: DHT_msg_def Let_def TEMP_THRESHOLD_def HUM_THRESHOLD_def LDR_THRESHOLD_def
      MQ5_THRESHOLD_def int_val_gt)

lemma Soil_msg_cases:
  "f_lt (float_val (soil s)) 30 \<Longrightarrow>
     Soil_msg L s = TXT_SECO @ String_float1 L (soil s) @ ''%'' @ NL"
  "\<not> f_lt (float_val (soil s)) 30 \<Longrightarrow> f_gt (float_val (soil s)) 70 \<Longrightarrow>
     Soil_msg L s = TXT_HUMEDO @ String_float1 L (soil s) @ ''%'' @ NL"
  "\<not> f_lt (float_val (soil s)) 30 \<Longrightarrow> \<not> f_gt (float_val (soil s)) 70 \<Longrightarrow>
     Soil_msg L s = []"
  by (simp_all add: Soil_msg_def SOIL_THRESHOLD_LOW_def SOIL_THRESHOLD_HIGH_def)

lemma signs_differ: "TXT_SECO @ x \<noteq> TXT_HUMEDO @ y" "TXT_HUMEDO @ y \<noteq> TXT_SECO @ x"
  by (simp_all add: TXT_SECO_def TXT_HUMEDO_def)

lemma f_lt_not_gt: "f_lt v 30 \<Longrightarrow> \<not> f_gt v 70"
  by (cases v) (simp_all add: f_lt_def f_gt_def)

lemma f_between_neither: "f_between v 30 70 \<Longrightarrow> \<not> f_lt v 30 \<and> \<not> f_gt v 70"
  by (cases v) (simp_all add: f_between_def f_lt_def f_gt_def)

text \<open>
  C3. \<^verbatim>\<open>SoilTask\<close> tests the two soil thresholds as \<^verbatim>\<open>if\<close> / \<^verbatim>\<open>else if\<close>. For a record
  with moisture below 30.0 the text is the dry-soil (pump on) line, and not the
  waterlogged line; with moisture above 70.0 it is the waterlogged line, and not the
  dry-soil line. With moisture from 30.0 to 70.0 the text is empty and the task only
  removes the record: nothing is allocated and nothing is sent to the alert queue,
  whatever the heap and the alert queue are like. In the two other cases the task, at
  the start of an iteration, removes the record and sends one address to the alert
  queue: when \<^verbatim>\<open>malloc\<close> has room, the address of a fresh buffer holding the text and
  its terminator, and when it has none, the null pointer with nothing allocated; when
  the alert queue is full the task is left waiting with that address in hand and the
  alert queue as it was.
\<close>

theorem SoilTask_thresholds:
  assumes "soilQueue st = s # rest" and "held st Soil_task = None"
  shows "(f_lt (float_val (soil s)) 30 \<longrightarrow>
            Soil_msg L s = TXT_SECO @ String_float1 L (soil s) @ ''%'' @ NL
          \<and> Soil_msg L s \<noteq> TXT_HUMEDO @ String_float1 L (soil s) @ ''%'' @ NL)
       \<and> (f_gt (float_val (soil s)) 70 \<longrightarrow>
            Soil_msg L s = TXT_HUMEDO @ String_float1 L (soil s) @ ''%'' @ NL
          \<and> Soil_msg L s \<noteq> TXT_SECO @ String_float1 L (soil s) @ ''%'' @ NL)
       \<and> (f_between (float_val (soil s)) 30 70 \<longrightarrow>
            Soil_msg L s = [] \<and> SoilTask L avail st = Returned (st\<lparr>soilQueue := rest\<rparr>))
       \<and> (f_lt (float_val (soil s)) 30 \<or> f_gt (float_val (soil s)) 70 \<longrightarrow>
            SoilTask L True st =
              (if length (msgQueue st) < 5
               then Returned (st\<lparr>soilQueue := rest,
                      cells := (cells st)(Suc (brk st) \<mapsto> Soil_msg L s @ [CHR 0x00]),
                      brk := Suc (brk st), msgQueue := msgQueue st @ [Suc (brk st)]\<rparr>)
               else Suspended (st\<lparr>soilQueue := rest,
                      cells := (cells st)(Suc (brk st) \<mapsto> Soil_msg L s @ [CHR 0x00]),
                      brk := Suc (brk st), held := (held st)(Soil_task \<mapsto> Suc (brk st))\<rparr>))
          \<and> SoilTask L False st =
              (if length (msgQueue st) < 5
               then Returned (st\<lparr>soilQueue := rest, msgQueue := msgQueue st @ [0]\<rparr>)
               else Suspended (st\<lparr>soilQueue := rest, held := (held st)(Soil_task \<mapsto> 0)\<rparr>)))"
proof -
  let ?dry = "TXT_SECO @ String_float1 L (soil s) @ ''%'' @ NL"
  let ?wet = "TXT_HUMEDO @ String_float1 L (soil s) @ ''%'' @ NL"
  have dry: "Soil_msg L s = ?dry" if "f_lt (float_val (soil s)) 30"
    using that by (rule Soil_msg_cases)
  have wet: "Soil_msg L s = ?wet" if gt: "f_gt (float_val (soil s)) 70"
  proof -
    from gt have "\<not> f_lt (float_val (soil s)) 30" using f_lt_not_gt by blast
    then show ?thesis using gt by (rule Soil_msg_cases)
  qed
  have a: "f_lt (float_val (soil s)) 30 \<longrightarrow> Soil_msg L s = ?dry \<and> Soil_msg L s \<noteq> ?wet"
  proof
    assume "f_lt (float_val (soil s)) 30"
    then have e: "Soil_msg L s = ?dry" by (rule dry)
    then have "Soil_msg L s \<noteq> ?wet" by (simp only: signs_differ not_False_eq_True)
    with e show "Soil_msg L s = ?dry \<and> Soil_msg L s \<noteq> ?wet" by (rule conjI)
  qed
  have b: "f_gt (float_val (soil s)) 70 \<longrightarrow> Soil_msg L s = ?wet \<and> Soil_msg L s \<noteq> ?dry"
  proof
    assume "f_gt (float_val (soil s)) 70"
    then have e: "Soil_msg L s = ?wet" by (rule wet)
    then have "Soil_msg L s \<noteq> ?dry" by (simp only: signs_differ not_False_eq_True)
    with e show "Soil_msg L s = ?wet \<and> Soil_msg L s \<noteq> ?dry" by (rule conjI)
  qed
  have c: "f_between (float_val (soil s)) 30 70 \<longrightarrow>
      Soil_msg L s = [] \<and> SoilTask L avail st = Returned (st\<lparr>soilQueue := rest\<rparr>)"
  proof
    assume "f_between (float_val (soil s)) 30 70"
    then have "\<not> f_lt (float_val (soil s)) 30" and "\<not> f_gt (float_val (soil s)) 70"
      using f_between_neither by blast+
    then have none: "Soil_msg L s = []" by (rule Soil_msg_cases)
    then show "Soil_msg L s = [] \<and> SoilTask L avail st = Returned (st\<lparr>soilQueue := rest\<rparr>)"
      by (simp add: SoilTask_head [OF assms] enqueue_alert_empty)
  qed
  have d: "f_lt (float_val (soil s)) 30 \<or> f_gt (float_val (soil s)) 70 \<longrightarrow>
      SoilTask L True st =
        (if length (msgQueue st) < 5
         then Returned (st\<lparr>soilQueue := rest,
                cells := (cells st)(Suc (brk st) \<mapsto> Soil_msg L s @ [CHR 0x00]),
                brk := Suc (brk st), msgQueue := msgQueue st @ [Suc (brk st)]\<rparr>)
         else Suspended (st\<lparr>soilQueue := rest,
                cells := (cells st)(Suc (brk st) \<mapsto> Soil_msg L s @ [CHR 0x00]),
                brk := Suc (brk st), held := (held st)(Soil_task \<mapsto> Suc (brk st))\<rparr>))
    \<and> SoilTask L False st =
        (if length (msgQueue st) < 5
         then Returned (st\<lparr>soilQueue := rest, msgQueue := msgQueue st @ [0]\<rparr>)
         else Suspended (st\<lparr>soilQueue := rest, held := (held st)(Soil_task \<mapsto> 0)\<rparr>))"
  proof
    assume "f_lt (float_val (soil s)) 30 \<or> f_gt (float_val (soil s)) 70"
    then have "Soil_msg L s = ?dry \<or> Soil_msg L s = ?wet" using dry wet by blast
    then have "Soil_msg L s \<noteq> []" using signs_not_empty(5,6) by auto
    with assms show "SoilTask L True st =
        (if length (msgQueue st) < 5
         then Returned (st\<lparr>soilQueue := rest,
                cells := (cells st)(Suc (brk st) \<mapsto> Soil_msg L s @ [CHR 0x00]),
                brk := Suc (brk st), msgQueue := msgQueue st @ [Suc (brk st)]\<rparr>)
         else Suspended (st\<lparr>soilQueue := rest,
                cells := (cells st)(Suc (brk st) \<mapsto> Soil_msg L s @ [CHR 0x00]),
                brk := Suc (brk st), held := (held st)(Soil_task \<mapsto> Suc (brk st))\<rparr>))
    \<and> SoilTask L False st =
        (if length (msgQueue st) < 5
         then Returned (st\<lparr>soilQueue := rest, msgQueue := msgQueue st @ [0]\<rparr>)
         else Suspended (st\<lparr>soilQueue := rest, held := (held st)(Soil_task \<mapsto> 0)\<rparr>))"
      using SoilTask_alert [of st s rest L] by blast
  qed
  from a b c d show ?thesis by blast
qed

lemma sample_values:
  "f_lt (float_val (soil soil_sample_25)) 30"
  "f_gt (float_val (soil soil_sample_75)) 70"
  "f_between (float_val (soil soil_sample_50)) 30 70"
  by (simp_all add: soil_sample_25_def soil_sample_75_def soil_sample_50_def float_val_examples
      f_lt_def f_gt_def f_between_def)

theorem SoilTask_thresholds_witness:
  "Soil_msg ref_textlib soil_sample_25 = TXT_SECO @ ''25.0%'' @ NL
   \<and> SoilTask ref_textlib True one_soil_record =
       Returned (one_soil_record\<lparr>soilQueue := [],
         cells := (cells one_soil_record)(1 \<mapsto> TXT_SECO @ ''25.0%'' @ NL @ [CHR 0x00]),
         brk := 1, msgQueue := [1]\<rparr>)
   \<and> SoilTask ref_textlib False one_soil_record =
       Returned (one_soil_record\<lparr>soilQueue := [], msgQueue := [0]\<rparr>)
   \<and> SoilTask ref_textlib True full_alert_queue =
       Suspended (full_alert_queue\<lparr>soilQueue := [],
         cells := (cells full_alert_queue)(6 \<mapsto> TXT_SECO @ ''25.0%'' @ NL @ [CHR 0x00]),
         brk := 6, held := [Soil_task \<mapsto> 6]\<rparr>)
   \<and> Soil_msg ref_textlib soil_sample_75
       = TXT_HUMEDO @ String_float1 ref_textlib (soil soil_sample_75) @ ''%'' @ NL
   \<and> Soil_msg ref_textlib soil_sample_50 = []
   \<and> SoilTask ref_textlib True ((setup_node True)\<lparr>soilQueue := [soil_sample_50]\<rparr>)
       = Returned ((setup_node True)\<lparr>soilQueue := []\<rparr>)"
proof -
  have q: "soilQueue one_soil_record = soil_sample_25 # []"
    "held one_soil_record Soil_task = None"
    "msgQueue one_soil_record = []" "brk one_soil_record = 0"
    by (simp_all add: one_soil_record_def setup_node_def)
  have f: "soilQueue full_alert_queue = soil_sample_25 # []"
    "held full_alert_queue Soil_task = None" "held full_alert_queue = Map.empty"
    "msgQueue full_alert_queue = [1, 2, 3, 4, 5]" "brk full_alert_queue = 5"
    by (simp_all add: full_alert_queue_def setup_node_def)
  have t: "String_float1 ref_textlib (soil soil_sample_25) = ''25.0''"
    by (simp add: ref_textlib_def soil_sample_25_def fixed1_examples)
  note one = SoilTask_thresholds [OF q(1,2), where L = ref_textlib]
  have m: "Soil_msg ref_textlib soil_sample_25 = TXT_SECO @ ''25.0%'' @ NL"
    using one sample_values(1) by (simp add: t)
  have a: "SoilTask ref_textlib True one_soil_record =
       Returned (one_soil_record\<lparr>soilQueue := [],
         cells := (cells one_soil_record)(1 \<mapsto> TXT_SECO @ ''25.0%'' @ NL @ [CHR 0x00]),
         brk := 1, msgQueue := [1]\<rparr>)"
    and a': "SoilTask ref_textlib False one_soil_record =
       Returned (one_soil_record\<lparr>soilQueue := [], msgQueue := [0]\<rparr>)"
    using one sample_values(1) by (simp_all add: q m)
  have s: "SoilTask ref_textlib True full_alert_queue =
       Suspended (full_alert_queue\<lparr>soilQueue := [],
         cells := (cells full_alert_queue)(6 \<mapsto> TXT_SECO @ ''25.0%'' @ NL @ [CHR 0x00]),
         brk := 6, held := [Soil_task \<mapsto> 6]\<rparr>)"
    using SoilTask_thresholds [OF f(1,2), where L = ref_textlib] sample_values(1)
    by (simp add: f m)
  have q75: "soilQueue ((setup_node True)\<lparr>soilQueue := [soil_sample_75]\<rparr>)
      = soil_sample_75 # []"
    "held ((setup_node True)\<lparr>soilQueue := [soil_sample_75]\<rparr>) Soil_task = None"
    by (simp_all add: setup_node_def)
  have b: "Soil_msg ref_textlib soil_sample_75
      = TXT_HUMEDO @ String_float1 ref_textlib (soil soil_sample_75) @ ''%'' @ NL"
    using SoilTask_thresholds [OF q75, where L = ref_textlib] sample_values(2) by simp
  have q50: "soilQueue ((setup_node True)\<lparr>soilQueue := [soil_sample_50]\<rparr>)
      = soil_sample_50 # []"
    "held ((setup_node True)\<lparr>soilQueue := [soil_sample_50]\<rparr>) Soil_task = None"
    by (simp_all add: setup_node_def)
  have c: "Soil_msg ref_textlib soil_sample_50 = []
     \<and> SoilTask ref_textlib True ((setup_node True)\<lparr>soilQueue := [soil_sample_50]\<rparr>)
       = Returned ((setup_node True)\<lparr>soilQueue := []\<rparr>)"
    using SoilTask_thresholds [OF q50, where L = ref_textlib and avail = True]
      sample_values(3) by simp
  from m a a' s b c show ?thesis by blast
qed

text \<open>
  C4. The text \<^verbatim>\<open>DHTTask\<close> builds is the specification's: the lines of those of the
  four conditions (temperature above 30.0, humidity above 80.0, light above 700, gas
  index above 1500) that hold, each tested on its own, joined in that order, every line
  ending in a newline. For the record with temperature 31.0, humidity 50.0, light 0 and
  gas index 0 the text is the high-temperature line and nothing else. At the start of
  an iteration the task removes the record; for an empty text that is all it does; for
  a text that is not empty it sends one address to the alert queue: when \<^verbatim>\<open>malloc\<close> has
  room, the address of a fresh buffer holding the whole text and its terminator, and
  when it has none, the null pointer with nothing allocated; when the alert queue is
  full the task is left waiting with that address in hand.
\<close>

theorem DHT_msg_conditions:
  "DHT_msg L d = spec_environment_alert L d
   \<and> float_val (temp dht_sample_31) = FNum 31 \<and> float_val (hum dht_sample_31) = FNum 50
   \<and> sint (luz dht_sample_31) = 0 \<and> sint (mq5 dht_sample_31) = 0
   \<and> DHT_msg L dht_sample_31
       = TXT_TEMP @ String_float1 L (temp dht_sample_31) @ DEG @ ''C'' @ NL
   \<and> (dhtQueue st = d # rest \<and> held st DHT_task = None \<longrightarrow>
        (DHT_msg L d = [] \<longrightarrow> DHTTask L avail st = Returned (st\<lparr>dhtQueue := rest\<rparr>))
      \<and> (DHT_msg L d \<noteq> [] \<longrightarrow>
           DHTTask L True st =
             (if length (msgQueue st) < 5
              then Returned (st\<lparr>dhtQueue := rest,
                     cells := (cells st)(Suc (brk st) \<mapsto> DHT_msg L d @ [CHR 0x00]),
                     brk := Suc (brk st), msgQueue := msgQueue st @ [Suc (brk st)]\<rparr>)
              else Suspended (st\<lparr>dhtQueue := rest,
                     cells := (cells st)(Suc (brk st) \<mapsto> DHT_msg L d @ [CHR 0x00]),
                     brk := Suc (brk st), held := (held st)(DHT_task \<mapsto> Suc (brk st))\<rparr>))
         \<and> DHTTask L False st =
             (if length (msgQueue st) < 5
              then Returned (st\<lparr>dhtQueue := rest, msgQueue := msgQueue st @ [0]\<rparr>)
              else Suspended (st\<lparr>dhtQueue := rest, held := (held st)(DHT_task \<mapsto> 0)\<rparr>))))"
proof (intro conjI impI)
  show "DHT_msg L d = spec_environment_alert L d" by (rule DHT_msg_refines)
  show "float_val (temp dht_sample_31) = FNum 31" "float_val (hum dht_sample_31) = FNum 50"
    by (simp_all add: dht_sample_31_def float_val_examples)
  show "sint (luz dht_sample_31) = 0" "sint (mq5 dht_sample_31) = 0"
    by (simp_all add: dht_sample_31_def)
  show "DHT_msg L dht_sample_31
      = TXT_TEMP @ String_float1 L (temp dht_sample_31) @ DEG @ ''C'' @ NL"
    by (simp add: DHT_msg_def dht_sample_31_def float_val_examples f_gt_def int_val_def
        TEMP_THRESHOLD_def HUM_THRESHOLD_def LDR_THRESHOLD_def MQ5_THRESHOLD_def)
next
  assume a: "dhtQueue st = d # rest \<and> held st DHT_task = None" and e: "DHT_msg L d = []"
  from a have "dhtQueue st = d # rest" and "held st DHT_task = None" by simp_all
  then show "DHTTask L avail st = Returned (st\<lparr>dhtQueue := rest\<rparr>)"
    by (simp add: DHTTask_head e enqueue_alert_empty)
next
  assume a: "dhtQueue st = d # rest \<and> held st DHT_task = None" and n: "DHT_msg L d \<noteq> []"
  from a have q: "dhtQueue st = d # rest" and h: "held st DHT_task = None" by simp_all
  show "DHTTask L True st =
      (if length (msgQueue st) < 5
       then Returned (st\<lparr>dhtQueue := rest,
              cells := (cells st)(Suc (brk st) \<mapsto> DHT_msg L d @ [CHR 0x00]),
              brk := Suc (brk st), msgQueue := msgQueue st @ [Suc (brk st)]\<rparr>)
       else Suspended (st\<lparr>dhtQueue := rest,
              cells := (cells st)(Suc (brk st) \<mapsto> DHT_msg L d @ [CHR 0x00]),
              brk := Suc (brk st), held := (held st)(DHT_task \<mapsto> Suc (brk st))\<rparr>))"
    using q h n by (rule DHTTask_alert)
  show "DHTTask L False st =
      (if length (msgQueue st) < 5
       then Returned (st\<lparr>dhtQueue := rest, msgQueue := msgQueue st @ [0]\<rparr>)
       else Suspended (st\<lparr>dhtQueue := rest, held := (held st)(DHT_task \<mapsto> 0)\<rparr>))"
    using q h n by (rule DHTTask_alert)
qed

theorem DHT_msg_conditions_witness:
  "DHTTask ref_textlib True one_dht_record =
     Returned (one_dht_record\<lparr>dhtQueue := [],
       cells := (cells one_dht_record)(1 \<mapsto> TXT_TEMP @ ''31.0'' @ DEG @ ''C'' @ NL @ [CHR 0x00]),
       brk := 1, msgQueue := [1]\<rparr>)
   \<and> DHTTask ref_textlib False one_dht_record =
     Returned (one_dht_record\<lparr>dhtQueue := [], msgQueue := [0]\<rparr>)"
proof -
  have q: "dhtQueue one_dht_record = dht_sample_31 # []"
    "held one_dht_record DHT_task = None"
    "msgQueue one_dht_record = []" "brk one_dht_record = 0"
    by (simp_all add: one_dht_record_def setup_node_def)
  have t: "String_float1 ref_textlib (temp dht_sample_31) = ''31.0''"
    by (simp add: ref_textlib_def dht_sample_31_def fixed1_examples)
  note c = DHT_msg_conditions [where L = ref_textlib and d = dht_sample_31
      and st = one_dht_record and rest = "[]" and avail = True]
  from c have "DHT_msg ref_textlib dht_sample_31
      = TXT_TEMP @ String_float1 ref_textlib (temp dht_sample_31) @ DEG @ ''C'' @ NL"
    by blast
  then have m: "DHT_msg ref_textlib dht_sample_31 = TXT_TEMP @ ''31.0'' @ DEG @ ''C'' @ NL"
    by (simp add: t)
  then have n: "DHT_msg ref_textlib dht_sample_31 \<noteq> []" by (simp add: signs_not_empty)
  from c q(1,2) n have "DHTTask ref_textlib True one_dht_record =
      (if length (msgQueue one_dht_record) < 5
       then Returned (one_dht_record\<lparr>dhtQueue := [],
              cells := (cells one_dht_record)(Suc (brk one_dht_record) \<mapsto>
                         DHT_msg ref_textlib dht_sample_31 @ [CHR 0x00]),
              brk := Suc (brk one_dht_record),
              msgQueue := msgQueue one_dht_record @ [Suc (brk one_dht_record)]\<rparr>)
       else Suspended (one_dht_record\<lparr>dhtQueue := [],
              cells := (cells one_dht_record)(Suc (brk one_dht_record) \<mapsto>
                         DHT_msg ref_textlib dht_sample_31 @ [CHR 0x00]),
              brk := Suc (brk one_dht_record),
              held := (held one_dht_record)(DHT_task \<mapsto> Suc (brk one_dht_record))\<rparr>))"
    and "DHTTask ref_textlib False one_dht_record =
      (if length (msgQueue one_dht_record) < 5
       then Returned (one_dht_record\<lparr>dhtQueue := [],
              msgQueue := msgQueue one_dht_record @ [0]\<rparr>)
       else Suspended (one_dht_record\<lparr>dhtQueue := [],
              held := (held one_dht_record)(DHT_task \<mapsto> 0)\<rparr>))"
    by blast+
  with q show ?thesis by (simp add: m)
qed
section \<open>Who writes to the card\<close>

lemma send_alert_frame:
  "send_alert t buf st \<noteq> Indeterminate"
  "SD_MMC (result (send_alert t buf st)) = SD_MMC st"
  "dhtQueue (result (send_alert t buf st)) = dhtQueue st"
  "soilQueue (result (send_alert t buf st)) = soilQueue st"
  "bot_log (result (send_alert t buf st)) = bot_log st"
  "released (result (send_alert t buf st)) = released st"
  "cells (result (send_alert t buf st)) = cells st"
  "brk (result (send_alert t buf st)) = brk st"
  by (simp_all add: send_alert_cases)

lemma enqueue_alert_frame:
  "enqueue_alert t msg avail st \<noteq> Indeterminate"
  "SD_MMC (result (enqueue_alert t msg avail st)) = SD_MMC st"
  "dhtQueue (result (enqueue_alert t msg avail st)) = dhtQueue st"
  "soilQueue (result (enqueue_alert t msg avail st)) = soilQueue st"
  "bot_log (result (enqueue_alert t msg avail st)) = bot_log st"
  "released (result (enqueue_alert t msg avail st)) = released st"
proof -
  have "enqueue_alert t msg avail st \<noteq> Indeterminate
      \<and> SD_MMC (result (enqueue_alert t msg avail st)) = SD_MMC st
      \<and> dhtQueue (result (enqueue_alert t msg avail st)) = dhtQueue st
      \<and> soilQueue (result (enqueue_alert t msg avail st)) = soilQueue st
      \<and> bot_log (result (enqueue_alert t msg avail st)) = bot_log st
      \<and> released (result (enqueue_alert t msg avail st)) = released st"
  proof (cases "msg = []")
    case True
    then show ?thesis by (simp add: enqueue_alert_empty)
  next
    case False
    then show ?thesis by (cases avail) (simp_all add: enqueue_alert_text send_alert_frame)
  qed
  then show "enqueue_alert t msg avail st \<noteq> Indeterminate"
    "SD_MMC (result (enqueue_alert t msg avail st)) = SD_MMC st"
    "dhtQueue (result (enqueue_alert t msg avail st)) = dhtQueue st"
    "soilQueue (result (enqueue_alert t msg avail st)) = soilQueue st"
    "bot_log (result (enqueue_alert t msg avail st)) = bot_log st"
    "released (result (enqueue_alert t msg avail st)) = released st"
    by simp_all
qed

lemma DHTTask_frame:
  "DHTTask L avail st \<noteq> Indeterminate"
  "SD_MMC (result (DHTTask L avail st)) = SD_MMC st"
  "soilQueue (result (DHTTask L avail st)) = soilQueue st"
  "bot_log (result (DHTTask L avail st)) = bot_log st"
  "released (result (DHTTask L avail st)) = released st"
  by (simp_all add: DHTTask_def xQueueReceive_def send_alert_frame enqueue_alert_frame
      split: option.splits list.splits)

lemma SoilTask_frame:
  "SoilTask L avail st \<noteq> Indeterminate"
  "SD_MMC (result (SoilTask L avail st)) = SD_MMC st"
  "dhtQueue (result (SoilTask L avail st)) = dhtQueue st"
  "bot_log (result (SoilTask L avail st)) = bot_log st"
  "released (result (SoilTask L avail st)) = released st"
  by (simp_all add: SoilTask_def xQueueReceive_def send_alert_frame enqueue_alert_frame
      split: option.splits list.splits)

lemma DHTTask_keeps_card:
  assumes "DHTTask L avail st = Returned st' \<or> DHTTask L avail st = Suspended st'"
  shows "SD_MMC st' = SD_MMC st"
proof -
  from assms have "result (DHTTask L avail st) = st'" by auto
  then show ?thesis using DHTTask_frame(2) [of L avail st] by simp
qed

lemma SoilTask_keeps_card:
  assumes "SoilTask L avail st = Returned st' \<or> SoilTask L avail st = Suspended st'"
  shows "SD_MMC st' = SD_MMC st"
proof -
  from assms have "result (SoilTask L avail st) = st'" by auto
  then show ?thesis using SoilTask_frame(2) [of L avail st] by simp
qed

lemma OnDataRecv_soil_cases:
  assumes "take 6 src_addr = soilSenderMAC" and "length incoming = 4"
  shows "OnDataRecv L now src_addr incoming st =
      (if length (soilQueue st) < 5
       then (case saveDataToSD L now 0 0 (soil (decode_soil incoming)) 0 0 (SD_MMC st) of
               None \<Rightarrow> Indeterminate
             | Some sdc \<Rightarrow>
                 Returned (st\<lparr>soilQueue := soilQueue st @ [decode_soil incoming],
                              SD_MMC := sdc\<rparr>))
       else Suspended st)"
  using assms
  by (simp add: OnDataRecv_soil sizeof_soil_message_t_def xQueueSend_def QUEUE_LENGTH_def)

lemma OnDataRecv_dht_cases:
  assumes "take 6 src_addr = unifiedSenderMAC" and "length incoming = 16"
  shows "OnDataRecv L now src_addr incoming st =
      (if length (dhtQueue st) < 5
       then (case saveDataToSD L now (temp (decode_dht incoming)) (hum (decode_dht incoming)) 0
                    (luz (decode_dht incoming)) (mq5 (decode_dht incoming)) (SD_MMC st) of
               None \<Rightarrow> Indeterminate
             | Some sdc \<Rightarrow>
                 Returned (st\<lparr>dhtQueue := dhtQueue st @ [decode_dht incoming],
                              SD_MMC := sdc\<rparr>))
       else Suspended st)"
  using assms
  by (simp add: OnDataRecv_dht sizeof_dht_message_t_def xQueueSend_def QUEUE_LENGTH_def)

lemma DHTTask_one_dht_record:
  "DHTTask ref_textlib True one_dht_record =
     Returned (one_dht_record\<lparr>dhtQueue := [],
       cells := (cells one_dht_record)(1 \<mapsto> TXT_TEMP @ ''31.0'' @ DEG @ ''C'' @ NL @ [CHR 0x00]),
       brk := 1, msgQueue := [1]\<rparr>)"
proof -
  have q: "dhtQueue one_dht_record = dht_sample_31 # []" "held one_dht_record DHT_task = None"
    "msgQueue one_dht_record = []" "brk one_dht_record = 0"
    by (simp_all add: one_dht_record_def setup_node_def)
  have m: "DHT_msg ref_textlib dht_sample_31 = TXT_TEMP @ ''31.0'' @ DEG @ ''C'' @ NL"
    by (simp add: DHT_msg_def dht_sample_31_def float_val_examples f_gt_def int_val_def
        TEMP_THRESHOLD_def HUM_THRESHOLD_def LDR_THRESHOLD_def MQ5_THRESHOLD_def
        ref_textlib_def fixed1_examples)
  then have "DHT_msg ref_textlib dht_sample_31 \<noteq> []" by (simp add: signs_not_empty)
  then show ?thesis
    by (simp add: DHTTask_alert(1) [OF q(1,2)] q m)
qed

lemma registered_payloads:
  "take 6 soilSenderMAC = soilSenderMAC" "length soil_payload_25 = 4"
  "take 6 unifiedSenderMAC = unifiedSenderMAC" "length dht_payload_31 = 16"
  by (simp_all add: soilSenderMAC_def unifiedSenderMAC_def soil_payload_25_def
      dht_payload_31_def)

lemma setup_node_fields:
  "dhtQueue (setup_node b) = []" "soilQueue (setup_node b) = []" "msgQueue (setup_node b) = []"
  "brk (setup_node b) = 0" "bot_log (setup_node b) = []" "released (setup_node b) = []"
  "held (setup_node b) = Map.empty" "cells (setup_node b) = Map.empty"
  "SD_MMC (setup_node True) = empty_card"
  by (simp_all add: setup_node_def empty_card_def)

text \<open>
  C6, as the code has it. The evaluator tasks make no persistence request: a step of
  \<^verbatim>\<open>DHTTask\<close> or of \<^verbatim>\<open>SoilTask\<close>, whether it runs to the end of the iteration or is left
  waiting, leaves the card as it was. The request is made by \<^verbatim>\<open>OnDataRecv\<close>, for every
  accepted payload, whatever its values, with all fields of the decoded record and the
  time of that moment, and after the record has been put on its queue: with room in the
  queue the callback's result is the state with the record appended and the card as
  \<^verbatim>\<open>saveDataToSD\<close> leaves it, and while the queue is full the callback waits with
  everything, the card included, unchanged.
\<close>

theorem persistence_in_callback:
  "(DHTTask L avail st = Returned st1 \<or> DHTTask L avail st = Suspended st1 \<longrightarrow>
      SD_MMC st1 = SD_MMC st)
   \<and> (SoilTask L avail st = Returned st2 \<or> SoilTask L avail st = Suspended st2 \<longrightarrow>
      SD_MMC st2 = SD_MMC st)
   \<and> (take 6 src_addr = soilSenderMAC \<and> length incoming = 4 \<longrightarrow>
        OnDataRecv L now src_addr incoming st =
          (if length (soilQueue st) < 5
           then (case saveDataToSD L now 0 0 (soil (decode_soil incoming)) 0 0 (SD_MMC st) of
                   None \<Rightarrow> Indeterminate
                 | Some sdc \<Rightarrow>
                     Returned (st\<lparr>soilQueue := soilQueue st @ [decode_soil incoming],
                                  SD_MMC := sdc\<rparr>))
           else Suspended st))
   \<and> (take 6 src_addr = unifiedSenderMAC \<and> length incoming = 16 \<longrightarrow>
        OnDataRecv L now src_addr incoming st =
          (if length (dhtQueue st) < 5
           then (case saveDataToSD L now (temp (decode_dht incoming))
                        (hum (decode_dht incoming)) 0 (luz (decode_dht incoming))
                        (mq5 (decode_dht incoming)) (SD_MMC st) of
                   None \<Rightarrow> Indeterminate
                 | Some sdc \<Rightarrow>
                     Returned (st\<lparr>dhtQueue := dhtQueue st @ [decode_dht incoming],
                                  SD_MMC := sdc\<rparr>))
           else Suspended st))"
proof (intro conjI impI)
  assume "DHTTask L avail st = Returned st1 \<or> DHTTask L avail st = Suspended st1"
  then show "SD_MMC st1 = SD_MMC st" by (rule DHTTask_keeps_card)
next
  assume "SoilTask L avail st = Returned st2 \<or> SoilTask L avail st = Suspended st2"
  then show "SD_MMC st2 = SD_MMC st" by (rule SoilTask_keeps_card)
next
  assume "take 6 src_addr = soilSenderMAC \<and> length incoming = 4"
  then have "take 6 src_addr = soilSenderMAC" and "length incoming = 4" by simp_all
  then show "OnDataRecv L now src_addr incoming st =
      (if length (soilQueue st) < 5
       then (case saveDataToSD L now 0 0 (soil (decode_soil incoming)) 0 0 (SD_MMC st) of
               None \<Rightarrow> Indeterminate
             | Some sdc \<Rightarrow>
                 Returned (st\<lparr>soilQueue := soilQueue st @ [decode_soil incoming],
                              SD_MMC := sdc\<rparr>))
       else Suspended st)"
    by (rule OnDataRecv_soil_cases)
next
  assume "take 6 src_addr = unifiedSenderMAC \<and> length incoming = 16"
  then have "take 6 src_addr = unifiedSenderMAC" and "length incoming = 16" by simp_all
  then show "OnDataRecv L now src_addr incoming st =
      (if length (dhtQueue st) < 5
       then (case saveDataToSD L now (temp (decode_dht incoming))
                    (hum (decode_dht incoming)) 0 (luz (decode_dht incoming))
                    (mq5 (decode_dht incoming)) (SD_MMC st) of
               None \<Rightarrow> Indeterminate
             | Some sdc \<Rightarrow>
                 Returned (st\<lparr>dhtQueue := dhtQueue st @ [decode_dht incoming],
                              SD_MMC := sdc\<rparr>))
       else Suspended st)"
    by (rule OnDataRecv_dht_cases)
qed

theorem persistence_in_callback_witness:
  "SD_MMC (result (DHTTask ref_textlib True one_dht_record)) = SD_MMC one_dht_record
   \<and> OnDataRecv ref_textlib (Some march_1st) soilSenderMAC soil_payload_25 (setup_node True)
      = Returned ((setup_node True)\<lparr>soilQueue := [soil_sample_25],
          SD_MMC := empty_card\<lparr>nodes := [''/2024-03-01'' \<mapsto> Dir, ''/2024-03-01/14'' \<mapsto> Dir,
            ''/2024-03-01/14/data.txt''
              \<mapsto> File (log_line ref_textlib 0 0 (soil soil_sample_25) 0 0)]\<rparr>\<rparr>)
   \<and> OnDataRecv ref_textlib (Some march_1st) soilSenderMAC soil_payload_25
        ((setup_node True)\<lparr>soilQueue := replicate 5 soil_sample_50\<rparr>)
      = Suspended ((setup_node True)\<lparr>soilQueue := replicate 5 soil_sample_50\<rparr>)"
proof -
  have d: "DHTTask ref_textlib True one_dht_record
      = Returned (result (DHTTask ref_textlib True one_dht_record))"
    by (simp add: DHTTask_one_dht_record)
  note p = persistence_in_callback [where L = ref_textlib and st = one_dht_record
      and avail = True and ?st1.0 = "result (DHTTask ref_textlib True one_dht_record)"]
  note p' = persistence_in_callback [where L = ref_textlib and st = "setup_node True"
      and src_addr = soilSenderMAC and incoming = soil_payload_25 and now = "Some march_1st"]
  have s: "saveDataToSD ref_textlib (Some march_1st) 0 0 (soil soil_sample_25) 0 0 empty_card
      = Some (empty_card\<lparr>nodes := [''/2024-03-01'' \<mapsto> Dir, ''/2024-03-01/14'' \<mapsto> Dir,
            ''/2024-03-01/14/data.txt''
              \<mapsto> File (log_line ref_textlib 0 0 (soil soil_sample_25) 0 0)]\<rparr>)"
    using saveDataToSD_appends [OF valid_march_1st(1) card_ready_empty,
        where L = ref_textlib and tempv = 0 and humv = 0 and soilv = "soil soil_sample_25"
        and luzv = 0 and ?mq5v.0 = 0]
    by (simp add: march_1st_paths file_text_def empty_card_def)
  note p'' = persistence_in_callback [where L = ref_textlib
      and st = "(setup_node True)\<lparr>soilQueue := replicate 5 soil_sample_50\<rparr>"
      and src_addr = soilSenderMAC and incoming = soil_payload_25 and now = "Some march_1st"]
  from p d have "SD_MMC (result (DHTTask ref_textlib True one_dht_record))
      = SD_MMC one_dht_record"
    by blast
  moreover from p' have "OnDataRecv ref_textlib (Some march_1st) soilSenderMAC soil_payload_25
      (setup_node True)
    = Returned ((setup_node True)\<lparr>soilQueue := [soil_sample_25],
          SD_MMC := empty_card\<lparr>nodes := [''/2024-03-01'' \<mapsto> Dir, ''/2024-03-01/14'' \<mapsto> Dir,
            ''/2024-03-01/14/data.txt''
              \<mapsto> File (log_line ref_textlib 0 0 (soil soil_sample_25) 0 0)]\<rparr>\<rparr>)"
    by (simp add: registered_payloads setup_node_fields decode_soil_payload_25 s)
  moreover from p'' have "OnDataRecv ref_textlib (Some march_1st) soilSenderMAC soil_payload_25
        ((setup_node True)\<lparr>soilQueue := replicate 5 soil_sample_50\<rparr>)
      = Suspended ((setup_node True)\<lparr>soilQueue := replicate 5 soil_sample_50\<rparr>)"
    by (simp add: registered_payloads)
  ultimately show ?thesis by blast
qed

text \<open>
  C6 as stated has the evaluator task ask for persistence for each record it takes
  from its queue. On a mounted, empty card, \<^verbatim>\<open>DHTTask\<close> takes the record with
  temperature 31.0 from its queue and sends the alert, and the card is still empty
  afterwards: the task has written no line (and it never asks for the time).
\<close>

theorem DHTTask_persists_counterexample:
  "is_Returned (DHTTask ref_textlib True one_dht_record)
   \<and> dhtQueue one_dht_record = [dht_sample_31]
   \<and> dhtQueue (result (DHTTask ref_textlib True one_dht_record)) = []
   \<and> msgQueue (result (DHTTask ref_textlib True one_dht_record)) = [1]
   \<and> SD_MMC one_dht_record = empty_card
   \<and> SD_MMC (result (DHTTask ref_textlib True one_dht_record)) = empty_card"
proof -
  have "dhtQueue one_dht_record = [dht_sample_31]" "SD_MMC one_dht_record = empty_card"
    by (simp_all add: one_dht_record_def setup_node_fields)
  then show ?thesis by (simp add: DHTTask_one_dht_record)
qed
section \<open>The fields of a log line\<close>

lemma log_line_soil:
  "log_line L 0 0 soilv 0 0 =
     ''Temp: '' @ printf_f1 L 0 @ DEG @ ''C, Hum: '' @ printf_f1 L 0 @ ''%, Suelo: ''
     @ printf_f1 L soilv @ ''%, Luz: 0, MQ5: 0'' @ NL"
  by (simp add: log_line_def dec_int_0)

lemma log_line_dht:
  "log_line L tempv humv 0 luzv mq5v =
     ''Temp: '' @ printf_f1 L tempv @ DEG @ ''C, Hum: '' @ printf_f1 L humv @ ''%, Suelo: ''
     @ printf_f1 L 0 @ ''%, Luz: '' @ dec_int (sint luzv) @ '', MQ5: '' @ dec_int (sint mq5v) @ NL"
  by (simp add: log_line_def)

lemma nodes_after_append:
  "nodes (sdc\<lparr>nodes := (nodes sdc)(a \<mapsto> Dir, b \<mapsto> Dir, p \<mapsto> File txt)\<rparr>) p = Some (File txt)"
  by simp

text \<open>
  C10. The line written for a record has the same five fields whatever the sender:
  temperature, humidity, soil, light and gas, in this order and with the same labels.
  For a soil record the temperature and humidity fields are the conversion of the
  \<^verbatim>\<open>float\<close> zero and the light and gas fields are \<^verbatim>\<open>0\<close>; for an environment record
  the soil field is the conversion of the \<^verbatim>\<open>float\<close> zero.
\<close>

theorem log_line_fields:
  assumes "valid_tm t" and "card_ready (SD_MMC st) t"
  shows "(take 6 src_addr = soilSenderMAC \<and> length incoming = 4 \<and> length (soilQueue st) < 5 \<longrightarrow>
            (\<exists>st'. OnDataRecv L (Some t) src_addr incoming st = Returned st'
               \<and> nodes (SD_MMC st') (fmt_file t) =
                   Some (File (file_text (SD_MMC st) (fmt_file t)
                     @ ''Temp: '' @ printf_f1 L 0 @ DEG @ ''C, Hum: '' @ printf_f1 L 0
                     @ ''%, Suelo: '' @ printf_f1 L (soil (decode_soil incoming))
                     @ ''%, Luz: 0, MQ5: 0'' @ NL))))
       \<and> (take 6 src_addr = unifiedSenderMAC \<and> length incoming = 16
            \<and> length (dhtQueue st) < 5 \<longrightarrow>
            (\<exists>st'. OnDataRecv L (Some t) src_addr incoming st = Returned st'
               \<and> nodes (SD_MMC st') (fmt_file t) =
                   Some (File (file_text (SD_MMC st) (fmt_file t)
                     @ ''Temp: '' @ printf_f1 L (temp (decode_dht incoming)) @ DEG
                     @ ''C, Hum: '' @ printf_f1 L (hum (decode_dht incoming))
                     @ ''%, Suelo: '' @ printf_f1 L 0
                     @ ''%, Luz: '' @ dec_int (sint (luz (decode_dht incoming)))
                     @ '', MQ5: '' @ dec_int (sint (mq5 (decode_dht incoming))) @ NL))))
       \<and> float_val 0 = FNum 0"
proof (intro conjI impI)
  assume a: "take 6 src_addr = soilSenderMAC \<and> length incoming = 4
      \<and> length (soilQueue st) < 5"
  let ?c = "(SD_MMC st)\<lparr>nodes := (nodes (SD_MMC st))(fmt_date t \<mapsto> Dir, fmt_hour t \<mapsto> Dir,
      fmt_file t \<mapsto> File (file_text (SD_MMC st) (fmt_file t)
        @ log_line L 0 0 (soil (decode_soil incoming)) 0 0))\<rparr>"
  have s: "saveDataToSD L (Some t) 0 0 (soil (decode_soil incoming)) 0 0 (SD_MMC st) = Some ?c"
    using assms by (rule saveDataToSD_appends)
  have "OnDataRecv L (Some t) src_addr incoming st =
      Returned (st\<lparr>soilQueue := soilQueue st @ [decode_soil incoming], SD_MMC := ?c\<rparr>)"
    using a by (simp add: OnDataRecv_soil sizeof_soil_message_t_def xQueueSend_def
        QUEUE_LENGTH_def s)
  moreover have "nodes ?c (fmt_file t) = Some (File (file_text (SD_MMC st) (fmt_file t)
      @ ''Temp: '' @ printf_f1 L 0 @ DEG @ ''C, Hum: '' @ printf_f1 L 0
      @ ''%, Suelo: '' @ printf_f1 L (soil (decode_soil incoming)) @ ''%, Luz: 0, MQ5: 0'' @ NL))"
    by (simp only: nodes_after_append log_line_soil)
  ultimately show "\<exists>st'. OnDataRecv L (Some t) src_addr incoming st = Returned st'
      \<and> nodes (SD_MMC st') (fmt_file t) =
          Some (File (file_text (SD_MMC st) (fmt_file t)
            @ ''Temp: '' @ printf_f1 L 0 @ DEG @ ''C, Hum: '' @ printf_f1 L 0
            @ ''%, Suelo: '' @ printf_f1 L (soil (decode_soil incoming))
            @ ''%, Luz: 0, MQ5: 0'' @ NL))"
    by simp
next
  assume a: "take 6 src_addr = unifiedSenderMAC \<and> length incoming = 16
      \<and> length (dhtQueue st) < 5"
  let ?d = "decode_dht incoming"
  let ?c = "(SD_MMC st)\<lparr>nodes := (nodes (SD_MMC st))(fmt_date t \<mapsto> Dir, fmt_hour t \<mapsto> Dir,
      fmt_file t \<mapsto> File (file_text (SD_MMC st) (fmt_file t)
        @ log_line L (temp ?d) (hum ?d) 0 (luz ?d) (mq5 ?d)))\<rparr>"
  have s: "saveDataToSD L (Some t) (temp ?d) (hum ?d) 0 (luz ?d) (mq5 ?d) (SD_MMC st) = Some ?c"
    using assms by (rule saveDataToSD_appends)
  have "OnDataRecv L (Some t) src_addr incoming st =
      Returned (st\<lparr>dhtQueue := dhtQueue st @ [?d], SD_MMC := ?c\<rparr>)"
    using a by (simp add: OnDataRecv_dht sizeof_dht_message_t_def xQueueSend_def
        QUEUE_LENGTH_def s)
  moreover have "nodes ?c (fmt_file t) = Some (File (file_text (SD_MMC st) (fmt_file t)
      @ ''Temp: '' @ printf_f1 L (temp ?d) @ DEG @ ''C, Hum: '' @ printf_f1 L (hum ?d)
      @ ''%, Suelo: '' @ printf_f1 L 0 @ ''%, Luz: '' @ dec_int (sint (luz ?d))
      @ '', MQ5: '' @ dec_int (sint (mq5 ?d)) @ NL))"
    by (simp only: nodes_after_append log_line_dht)
  ultimately show "\<exists>st'. OnDataRecv L (Some t) src_addr incoming st = Returned st'
      \<and> nodes (SD_MMC st') (fmt_file t) =
          Some (File (file_text (SD_MMC st) (fmt_file t)
            @ ''Temp: '' @ printf_f1 L (temp ?d) @ DEG @ ''C, Hum: '' @ printf_f1 L (hum ?d)
            @ ''%, Suelo: '' @ printf_f1 L 0 @ ''%, Luz: '' @ dec_int (sint (luz ?d))
            @ '', MQ5: '' @ dec_int (sint (mq5 ?d)) @ NL))"
    by simp
next
  show "float_val 0 = FNum 0" by (rule float_val_0)
qed

theorem log_line_fields_witness:
  "(\<exists>st'. OnDataRecv ref_textlib (Some march_1st) soilSenderMAC soil_payload_25 (setup_node True)
            = Returned st'
      \<and> nodes (SD_MMC st') ''/2024-03-01/14/data.txt'' =
          Some (File (''Temp: 0.0'' @ DEG @ ''C, Hum: 0.0%, Suelo: 25.0%, Luz: 0, MQ5: 0'' @ NL)))
   \<and> (\<exists>st'. OnDataRecv ref_textlib (Some march_1st) unifiedSenderMAC dht_payload_31
              (setup_node True) = Returned st'
      \<and> nodes (SD_MMC st') ''/2024-03-01/14/data.txt'' =
          Some (File (''Temp: 31.0'' @ DEG @ ''C, Hum: 50.0%, Suelo: 0.0%, Luz: 0, MQ5: 0'' @ NL)))"
proof -
  have r: "card_ready (SD_MMC (setup_node True)) march_1st"
    by (simp add: setup_node_fields card_ready_empty)
  note f = log_line_fields [OF valid_march_1st(1) r, where L = ref_textlib]
  have e: "file_text (SD_MMC (setup_node True)) p = []" for p
    by (simp add: file_text_def setup_node_def)
  have t: "printf_f1 ref_textlib 0 = ''0.0''" "printf_f1 ref_textlib (soil soil_sample_25) = ''25.0''"
    "printf_f1 ref_textlib (temp dht_sample_31) = ''31.0''"
    "printf_f1 ref_textlib (hum dht_sample_31) = ''50.0''"
    "dec_int (sint (luz dht_sample_31)) = ''0''" "dec_int (sint (mq5 dht_sample_31)) = ''0''"
    by (simp_all add: ref_textlib_def soil_sample_25_def dht_sample_31_def fixed1_examples
        dec_int_0)
  have a: "take 6 soilSenderMAC = soilSenderMAC \<and> length soil_payload_25 = 4
      \<and> length (soilQueue (setup_node True)) < 5"
    by (simp add: registered_payloads setup_node_fields)
  have b: "take 6 unifiedSenderMAC = unifiedSenderMAC \<and> length dht_payload_31 = 16
      \<and> length (dhtQueue (setup_node True)) < 5"
    by (simp add: registered_payloads setup_node_fields)
  from f [where src_addr = soilSenderMAC and incoming = soil_payload_25] a
  have "\<exists>st'. OnDataRecv ref_textlib (Some march_1st) soilSenderMAC soil_payload_25
        (setup_node True) = Returned st'
      \<and> nodes (SD_MMC st') ''/2024-03-01/14/data.txt'' =
          Some (File (''Temp: 0.0'' @ DEG @ ''C, Hum: 0.0%, Suelo: 25.0%, Luz: 0, MQ5: 0'' @ NL))"
    by (simp add: march_1st_paths e decode_soil_payload_25 t)
  moreover from f [where src_addr = unifiedSenderMAC and incoming = dht_payload_31] b
  have "\<exists>st'. OnDataRecv ref_textlib (Some march_1st) unifiedSenderMAC dht_payload_31
        (setup_node True) = Returned st'
      \<and> nodes (SD_MMC st') ''/2024-03-01/14/data.txt'' =
          Some (File (''Temp: 31.0'' @ DEG @ ''C, Hum: 50.0%, Suelo: 0.0%, Luz: 0, MQ5: 0'' @ NL))"
    by (simp add: march_1st_paths e decode_dht_payload_31 t)
  ultimately show ?thesis by blast
qed

section \<open>The dispatcher\<close>

lemma String_cstr_cells:
  "cells st' p = cells st p \<Longrightarrow> String_cstr p st' = String_cstr p st"
  by (simp add: String_cstr_def)

lemma valid_buf_cells:
  "cells st' p = cells st p \<Longrightarrow> valid_buf p st' = valid_buf p st"
  by (simp add: valid_buf_def)

lemma TelegramTask_head:
  assumes "msgQueue st = p # rest" and "valid_buf p st"
  shows "TelegramTask ok st =
           Returned (st\<lparr>msgQueue := rest, cells := (cells st)(p := None),
                        released := released st @ [p],
                        bot_log := bot_log st @ [(the (String_cstr p st), ok)]\<rparr>)"
proof -
  from assms(2) obtain bs where b: "p \<noteq> 0" "cells st p = Some bs" "CHR 0x00 \<in> set bs"
    by (auto simp add: valid_buf_def split: option.splits)
  then have "String_cstr p st = Some (takeWhile (\<lambda>b. b \<noteq> CHR 0x00) bs)"
    by (simp add: String_cstr_def)
  with b assms(1) show ?thesis
    by (simp add: TelegramTask_def xQueueReceive_def free_buf_def)
qed








section \<open>Empty alerts\<close>

lemma alert_ok_cells:
  assumes "cells st' p = cells st p" and "brk st \<le> brk st'" and "alert_ok p st"
  shows "alert_ok p st'"
  using assms valid_buf_cells [of st' p st] String_cstr_cells [of st' p st]
  by (simp add: alert_ok_def)

lemma alert_ok_heap:
  assumes "cells st' = cells st" and "brk st' = brk st"
  shows "alert_ok p st' = alert_ok p st"
  using assms by (simp add: alert_ok_def valid_buf_def String_cstr_def)

lemma alert_ok_upd:
  "alert_ok p (st\<lparr>msgQueue := q, held := h\<rparr>) = alert_ok p st"
  "alert_ok p (st\<lparr>held := h\<rparr>) = alert_ok p st"
  "alert_ok p (st\<lparr>msgQueue := q\<rparr>) = alert_ok p st"
  by (rule alert_ok_heap; simp)+

lemma alerts_inv_same:
  assumes "alerts_inv st" and "msgQueue st' = msgQueue st" and "cells st' = cells st"
    and "brk st' = brk st" and "bot_log st' = bot_log st" and "held st' = held st"
  shows "alerts_inv st'"
  using assms alert_ok_heap [of st' st]
  by (simp add: alerts_inv_def held_bufs_def)

lemma takeWhile_text:
  assumes "msg \<noteq> []" and "hd msg \<noteq> CHR 0x00"
  shows "takeWhile (\<lambda>b. b \<noteq> CHR 0x00) (msg @ [CHR 0x00]) \<noteq> []"
  using assms by (cases msg) simp_all

text \<open>The send an evaluator was left waiting in: the address moves from its hand to the queue.\<close>

lemma alerts_inv_send_held:
  assumes inv: "alerts_inv st" and h: "held st t = Some buf"
  shows "alerts_inv (result (send_alert t buf st))"
proof (cases "length (msgQueue st) < QUEUE_LENGTH")
  case True
  let ?st = "st\<lparr>msgQueue := msgQueue st @ [buf], held := (held st)(t := None)\<rparr>"
  have r: "result (send_alert t buf st) = ?st" using True by (simp add: send_alert_cases)
  from inv h have "alerts_inv ?st"
    by (cases t)
      (auto simp add: alerts_inv_def held_bufs_def alert_ok_upd list_all_iff
          split: option.splits)
  with r show ?thesis by simp
next
  case False
  have "(held st)(t \<mapsto> buf) = held st" using h by (rule fun_upd_idem)
  with False have "result (send_alert t buf st) = st" by (simp add: send_alert_cases)
  with inv show ?thesis by simp
qed

text \<open>The send of a fresh buffer with a text.\<close>

lemma alerts_inv_send_new:
  assumes inv: "alerts_inv st" and h: "held st t = None" and ok: "alert_ok buf st"
    and fresh: "buf \<notin> set (msgQueue st @ held_bufs st)"
  shows "alerts_inv (result (send_alert t buf st))"
proof (cases "length (msgQueue st) < QUEUE_LENGTH")
  case True
  let ?st = "st\<lparr>msgQueue := msgQueue st @ [buf], held := (held st)(t := None)\<rparr>"
  have r: "result (send_alert t buf st) = ?st" using True by (simp add: send_alert_cases)
  from inv h ok fresh have "alerts_inv ?st"
    by (cases t)
      (auto simp add: alerts_inv_def held_bufs_def alert_ok_upd list_all_iff
          split: option.splits)
  with r show ?thesis by simp
next
  case False
  let ?st = "st\<lparr>held := (held st)(t \<mapsto> buf)\<rparr>"
  have r: "result (send_alert t buf st) = ?st" using False by (simp add: send_alert_cases)
  from inv h ok fresh have "alerts_inv ?st"
    by (cases t)
      (auto simp add: alerts_inv_def held_bufs_def alert_ok_upd list_all_iff
          split: option.splits)
  with r show ?thesis by simp
qed

lemma alerts_inv_enqueue_alert:
  assumes inv: "alerts_inv st" and h: "held st t = None"
    and hd: "msg \<noteq> [] \<longrightarrow> hd msg \<noteq> CHR 0x00"
  shows "alerts_inv (result (enqueue_alert t msg True st))"
proof (cases "msg = []")
  case True
  with inv show ?thesis by (simp add: enqueue_alert_empty)
next
  case False
  let ?p = "Suc (brk st)"
  let ?st = "st\<lparr>brk := ?p, cells := (cells st)(?p \<mapsto> msg @ [CHR 0x00])\<rparr>"
  from inv have old: "\<forall>q \<in> set (msgQueue st @ held_bufs st). alert_ok q st"
    and d: "distinct (msgQueue st @ held_bufs st)"
    and log: "[] \<notin> set (map fst (bot_log st))"
    by (simp_all add: alerts_inv_def list_all_iff)
  have fresh: "?p \<notin> set (msgQueue st @ held_bufs st)"
  proof
    assume "?p \<in> set (msgQueue st @ held_bufs st)"
    with old have "alert_ok ?p st" by blast
    then show False by (simp add: alert_ok_def)
  qed
  have kept: "alert_ok q ?st" if "q \<in> set (msgQueue st @ held_bufs st)" for q
  proof -
    from that old have a: "alert_ok q st" by blast
    from that fresh have "q \<noteq> ?p" by blast
    then have "cells ?st q = cells st q" by simp
    moreover have "brk st \<le> brk ?st" by simp
    ultimately show ?thesis using a by (rule alert_ok_cells)
  qed
  have new: "alert_ok ?p ?st"
    using takeWhile_text [of msg] False hd
    by (simp add: alert_ok_def valid_buf_def String_cstr_def)
  have same: "msgQueue ?st = msgQueue st" "held_bufs ?st = held_bufs st"
    "bot_log ?st = bot_log st" "held ?st t = None"
    using h by (simp_all add: held_bufs_def)
  have "alerts_inv ?st"
    using d kept log by (simp add: alerts_inv_def list_all_iff same)
  moreover note same(4) new
  moreover have "?p \<notin> set (msgQueue ?st @ held_bufs ?st)" using fresh by (simp add: same)
  ultimately have "alerts_inv (result (send_alert t ?p ?st))" by (rule alerts_inv_send_new)
  with False show ?thesis by (simp add: enqueue_alert_text)
qed

lemma alerts_inv_DHTTask:
  assumes inv: "alerts_inv st"
  shows "alerts_inv (result (DHTTask L True st))"
proof (cases "held st DHT_task")
  case (Some buf)
  with inv have "alerts_inv (result (send_alert DHT_task buf st))"
    by (rule alerts_inv_send_held)
  with Some show ?thesis by (simp add: DHTTask_def)
next
  case None
  show ?thesis
  proof (cases "dhtQueue st")
    case Nil
    with None inv show ?thesis by (simp add: DHTTask_def xQueueReceive_def)
  next
    case (Cons d rest)
    from inv have i: "alerts_inv (st\<lparr>dhtQueue := rest\<rparr>)"
      by (rule alerts_inv_same) simp_all
    have n: "held (st\<lparr>dhtQueue := rest\<rparr>) DHT_task = None" using None by simp
    have h: "DHT_msg L d \<noteq> [] \<longrightarrow> hd (DHT_msg L d) \<noteq> CHR 0x00"
      using DHT_msg_starts by blast
    from i n h have "alerts_inv (result (enqueue_alert DHT_task (DHT_msg L d) True
        (st\<lparr>dhtQueue := rest\<rparr>)))"
      by (rule alerts_inv_enqueue_alert)
    then show ?thesis by (simp add: DHTTask_head [OF Cons None])
  qed
qed

lemma alerts_inv_SoilTask:
  assumes inv: "alerts_inv st"
  shows "alerts_inv (result (SoilTask L True st))"
proof (cases "held st Soil_task")
  case (Some buf)
  with inv have "alerts_inv (result (send_alert Soil_task buf st))"
    by (rule alerts_inv_send_held)
  with Some show ?thesis by (simp add: SoilTask_def)
next
  case None
  show ?thesis
  proof (cases "soilQueue st")
    case Nil
    with None inv show ?thesis by (simp add: SoilTask_def xQueueReceive_def)
  next
    case (Cons s rest)
    from inv have i: "alerts_inv (st\<lparr>soilQueue := rest\<rparr>)"
      by (rule alerts_inv_same) simp_all
    have n: "held (st\<lparr>soilQueue := rest\<rparr>) Soil_task = None" using None by simp
    have h: "Soil_msg L s \<noteq> [] \<longrightarrow> hd (Soil_msg L s) \<noteq> CHR 0x00"
      using Soil_msg_starts by blast
    from i n h have "alerts_inv (result (enqueue_alert Soil_task (Soil_msg L s) True
        (st\<lparr>soilQueue := rest\<rparr>)))"
      by (rule alerts_inv_enqueue_alert)
    then show ?thesis by (simp add: SoilTask_head [OF Cons None])
  qed
qed

lemma OnDataRecv_frame:
  assumes "OnDataRecv L now src_addr incoming st = Returned st'
      \<or> OnDataRecv L now src_addr incoming st = Suspended st'"
  shows "msgQueue st' = msgQueue st \<and> cells st' = cells st \<and> brk st' = brk st
         \<and> bot_log st' = bot_log st \<and> released st' = released st \<and> held st' = held st"
  using assms by (auto simp add: OnDataRecv_def Let_def split: option.splits if_splits)

lemma alerts_inv_TelegramTask:
  assumes inv: "alerts_inv st"
    and run: "TelegramTask ok st = Returned st' \<or> TelegramTask ok st = Suspended st'"
  shows "alerts_inv st'"
proof (cases "msgQueue st")
  case Nil
  with run have "st' = st" by (simp add: TelegramTask_def xQueueReceive_def)
  with inv show ?thesis by simp
next
  case (Cons p rest)
  with inv have a: "alert_ok p st" and d: "distinct (rest @ held_bufs st)"
    and np: "p \<notin> set (rest @ held_bufs st)"
    and old: "\<forall>q \<in> set (rest @ held_bufs st). alert_ok q st"
    and log: "[] \<notin> set (map fst (bot_log st))"
    by (simp_all add: alerts_inv_def list_all_iff)
  from a have v: "valid_buf p st" by (simp add: alert_ok_def)
  from run have st': "st' = st\<lparr>msgQueue := rest, cells := (cells st)(p := None),
      released := released st @ [p],
      bot_log := bot_log st @ [(the (String_cstr p st), ok)]\<rparr>"
    by (simp add: TelegramTask_head [OF Cons v])
  from a have nonempty: "the (String_cstr p st) \<noteq> []"
    by (auto simp add: alert_ok_def split: option.splits)
  have kept: "alert_ok q st'" if "q \<in> set (rest @ held_bufs st)" for q
  proof -
    from that old have b: "alert_ok q st" by blast
    from that np have "q \<noteq> p" by blast
    then have "cells st' q = cells st q" by (simp add: st')
    moreover have "brk st \<le> brk st'" by (simp add: st')
    ultimately show ?thesis using b by (rule alert_ok_cells)
  qed
  have "msgQueue st' = rest" and "held_bufs st' = held_bufs st"
    and "map fst (bot_log st') = map fst (bot_log st) @ [the (String_cstr p st)]"
    by (simp_all add: st' held_bufs_def)
  with d kept log nonempty show ?thesis
    by (simp add: alerts_inv_def list_all_iff)
qed

lemma alerts_inv_step:
  assumes inv: "alerts_inv st" and al: "alloc_ok e"
    and run: "step L e st = Returned st' \<or> step L e st = Suspended st'"
  shows "alerts_inv st'"
proof (cases e)
  case (Recv now src_addr incoming)
  with run have "OnDataRecv L now src_addr incoming st = Returned st'
      \<or> OnDataRecv L now src_addr incoming st = Suspended st'"
    by simp
  then have "msgQueue st' = msgQueue st \<and> cells st' = cells st \<and> brk st' = brk st
      \<and> bot_log st' = bot_log st \<and> released st' = released st \<and> held st' = held st"
    by (rule OnDataRecv_frame)
  then have "msgQueue st' = msgQueue st" and "cells st' = cells st" and "brk st' = brk st"
    and "bot_log st' = bot_log st" and "held st' = held st"
    by simp_all
  with inv show ?thesis by (rule alerts_inv_same)
next
  case (RunDHT avail)
  with al have "avail" by (simp add: alloc_ok_def)
  with RunDHT run have "result (DHTTask L True st) = st'" by auto
  with inv show ?thesis using alerts_inv_DHTTask by blast
next
  case (RunSoil avail)
  with al have "avail" by (simp add: alloc_ok_def)
  with RunSoil run have "result (SoilTask L True st) = st'" by auto
  with inv show ?thesis using alerts_inv_SoilTask by blast
next
  case (RunTelegram ok)
  with run have "TelegramTask ok st = Returned st' \<or> TelegramTask ok st = Suspended st'"
    by simp
  with inv show ?thesis by (rule alerts_inv_TelegramTask)
qed

text \<open>
  As long as every allocation succeeds, every state of the node keeps the invariant: the
  addresses in the alert queue and in the hands of waiting evaluators are live buffers
  with a text that is not empty, and no empty text is passed on.
\<close>

lemma alerts_inv_run:
  assumes "alerts_inv st" and "list_all alloc_ok evs" and "run L evs st = Returned st'"
  shows "alerts_inv st'"
  using assms
proof (induction evs arbitrary: st)
  case Nil
  then show ?case by simp
next
  case (Cons e evs)
  from Cons.prems(2) have al: "alloc_ok e" and rest: "list_all alloc_ok evs" by simp_all
  show ?case
  proof (cases "step L e st")
    case (Returned st1)
    with Cons.prems(1) al have "alerts_inv st1" using alerts_inv_step by blast
    moreover from Returned Cons.prems(3) have "run L evs st1 = Returned st'" by simp
    ultimately show ?thesis using rest Cons.IH by blast
  next
    case (Suspended st1)
    with Cons.prems(1) al have "alerts_inv st1" using alerts_inv_step by blast
    moreover from Suspended Cons.prems(3) have "run L evs st1 = Returned st'" by simp
    ultimately show ?thesis using rest Cons.IH by blast
  next
    case Indeterminate
    with Cons.prems show ?thesis by simp
  qed
qed

lemma alerts_inv_setup_node: "alerts_inv (setup_node sd_ok)"
  by (simp add: alerts_inv_def setup_node_def held_bufs_def)

lemma OnDataRecv_no_time:
  "take 6 src_addr = soilSenderMAC \<Longrightarrow> length incoming = 4 \<Longrightarrow> length (soilQueue st) < 5 \<Longrightarrow>
     OnDataRecv L None src_addr incoming st
       = Returned (st\<lparr>soilQueue := soilQueue st @ [decode_soil incoming]\<rparr>)"
  "take 6 src_addr = unifiedSenderMAC \<Longrightarrow> length incoming = 16 \<Longrightarrow> length (dhtQueue st) < 5 \<Longrightarrow>
     OnDataRecv L None src_addr incoming st
       = Returned (st\<lparr>dhtQueue := dhtQueue st @ [decode_dht incoming]\<rparr>)"
  by (simp_all add: OnDataRecv_soil OnDataRecv_dht sizeof_soil_message_t_def
      sizeof_dht_message_t_def xQueueSend_def QUEUE_LENGTH_def saveDataToSD_def)

lemma dht_msg_sample_31:
  "DHT_msg ref_textlib dht_sample_31 = TXT_TEMP @ ''31.0'' @ DEG @ ''C'' @ NL"
  by (simp add: DHT_msg_def dht_sample_31_def float_val_examples f_gt_def int_val_def
      TEMP_THRESHOLD_def HUM_THRESHOLD_def LDR_THRESHOLD_def MQ5_THRESHOLD_def
      ref_textlib_def fixed1_examples)

text \<open>
  C9. Every buffer put on the alert queue should hold a text that is not empty, so
  that the dispatcher never takes an empty alert; both evaluators guard the allocation
  and the send with \<^verbatim>\<open>if (msg.length())\<close>. They do not look at what \<^verbatim>\<open>malloc\<close> returns.
  From \<^verbatim>\<open>setup\<close>, let the environment payload with temperature 31.0 arrive, let
  \<^verbatim>\<open>DHTTask\<close> take it at a moment when the heap has no room, and let the dispatcher run:
  the task builds the high-temperature line, which is not empty, and puts the null
  pointer on the alert queue; the dispatcher takes it, reads the empty text from it and
  passes the empty text to \<^verbatim>\<open>bot.sendMessage\<close>.
\<close>

theorem null_alert_dispatched:
  "DHT_msg ref_textlib dht_sample_31 = TXT_TEMP @ ''31.0'' @ DEG @ ''C'' @ NL
   \<and> run ref_textlib (take 2 heap_exhausted) (setup_node True)
       = Returned ((setup_node True)\<lparr>msgQueue := [0]\<rparr>)
   \<and> String_cstr 0 ((setup_node True)\<lparr>msgQueue := [0]\<rparr>) = Some []
   \<and> run ref_textlib heap_exhausted (setup_node True)
       = Returned ((setup_node True)\<lparr>released := [0], bot_log := [([], False)]\<rparr>)"
proof -
  let ?s0 = "setup_node True"
  have s1: "OnDataRecv ref_textlib None unifiedSenderMAC dht_payload_31 ?s0
      = Returned one_dht_record"
    using OnDataRecv_no_time(2) [of unifiedSenderMAC dht_payload_31 ?s0 ref_textlib]
    by (simp add: registered_payloads setup_node_fields decode_dht_payload_31
        one_dht_record_def)
  have q: "dhtQueue one_dht_record = dht_sample_31 # []" "held one_dht_record DHT_task = None"
    "msgQueue one_dht_record = []"
    by (simp_all add: one_dht_record_def setup_node_def)
  have n: "DHT_msg ref_textlib dht_sample_31 \<noteq> []"
    by (simp add: dht_msg_sample_31 signs_not_empty)
  have "DHTTask ref_textlib False one_dht_record
      = Returned (one_dht_record\<lparr>dhtQueue := [], msgQueue := [0]\<rparr>)"
    using DHTTask_alert(2) [OF q(1,2) n] by (simp add: q)
  moreover have "one_dht_record\<lparr>dhtQueue := [], msgQueue := [0]\<rparr> = ?s0\<lparr>msgQueue := [0]\<rparr>"
    by (simp add: one_dht_record_def setup_node_def)
  ultimately have s2: "DHTTask ref_textlib False one_dht_record
      = Returned (?s0\<lparr>msgQueue := [0]\<rparr>)"
    by simp
  have s3: "TelegramTask False (?s0\<lparr>msgQueue := [0]\<rparr>)
      = Returned (?s0\<lparr>released := [0], bot_log := [([], False)]\<rparr>)"
    by (simp add: TelegramTask_def xQueueReceive_def String_cstr_def free_buf_def
        setup_node_fields)
  have "run ref_textlib (take 2 heap_exhausted) ?s0 = Returned (?s0\<lparr>msgQueue := [0]\<rparr>)"
    by (simp add: heap_exhausted_def s1 s2)
  moreover have "String_cstr 0 (?s0\<lparr>msgQueue := [0]\<rparr>) = Some []"
    by (simp add: String_cstr_def)
  moreover have "run ref_textlib heap_exhausted ?s0
      = Returned (?s0\<lparr>released := [0], bot_log := [([], False)]\<rparr>)"
    by (simp add: heap_exhausted_def s1 s2 s3)
  ultimately show ?thesis using dht_msg_sample_31 by simp
qed

end
